theory Spec2Isabelle
  imports
    Complex_Main
    "HOL-Library.Log_Nat"
    "HOL-Library.Multiset"
    "HOL-Library.Char_ord"
    "HOL-Library.List_Lexorder"
begin

section \<open>JavaScript numbers\<close>

text \<open>
  Every JavaScript number is an IEEE 754 binary64 value. The quotient \<open>a / b\<close> and the
  product \<open>a * b\<close> are the exact results rounded to the nearest binary64 value, ties to
  the even significand. A finite binary64 value is a rational, so the model keeps values
  as \<^typ>\<open>rat\<close> and rounds after each inexact operation. The exponent range is not
  modelled: every value that the functions below round has a magnitude between
  \<open>2\<^sup>-\<^sup>3\<^sup>2\<close> and \<open>800\<close>, far from overflow and from the subnormal numbers.

  Integer-valued quantities (array lengths, counts, the results of \<open>Math.round\<close>, their
  sums and differences) are kept as \<^typ>\<open>nat\<close> and \<^typ>\<open>int\<close>: below \<open>2\<^sup>5\<^sup>3\<close>
  binary64 arithmetic on integers is exact, and an array has fewer than \<open>2\<^sup>3\<^sup>2\<close>
  elements.
\<close>

definition binade :: "rat \<Rightarrow> int" where
  \<comment> \<open>for \<open>x > 0\<close>, the integer \<open>e\<close> with \<open>2\<^sup>e \<le> x < 2\<^sup>e\<^sup>+\<^sup>1\<close>\<close>
  "binade x =
     (let (a, b) = quotient_of x; d = bitlen a - bitlen b
      in if 2 powi d \<le> x then d else d - 1)"

definition round_half_even :: "rat \<Rightarrow> int" where
  "round_half_even y =
     (let f = \<lfloor>y\<rfloor>; r = y - of_int f
      in if r < 1 / 2 then f
         else if 1 / 2 < r then f + 1
         else if even f then f else f + 1)"

definition fl_pos :: "rat \<Rightarrow> rat" where
  \<comment> \<open>nearest value with a 53-bit significand, for \<open>x > 0\<close>\<close>
  "fl_pos x =
     (let e = binade x - 52
      in of_int (round_half_even (x / 2 powi e)) * 2 powi e)"

definition fl :: "rat \<Rightarrow> rat" where
  "fl x = (if x = 0 then 0 else if x < 0 then - fl_pos (- x) else fl_pos x)"

definition js_div :: "rat \<Rightarrow> rat \<Rightarrow> rat" where
  \<comment> \<open>\<open>a / b\<close> for \<open>b \<noteq> 0\<close>; the callers guard the divisor\<close>
  "js_div a b = fl (a / b)"

definition js_mul :: "rat \<Rightarrow> rat \<Rightarrow> rat" where
  "js_mul a b = fl (a * b)"

definition Math_round :: "rat \<Rightarrow> int" where
  \<comment> \<open>\<open>Math.round\<close>: the nearest integer, a tie going to the larger one\<close>
  "Math_round x = \<lfloor>x + 1 / 2\<rfloor>"

definition round_half_up :: "rat \<Rightarrow> int" where
  \<comment> \<open>rounding of an exact rational, as the specification's \<open>round\<close>\<close>
  "round_half_up q = \<lfloor>q + 1 / 2\<rfloor>"

section \<open>JavaScript arrays\<close>

fun js_insert :: "('a \<Rightarrow> 'a \<Rightarrow> int) \<Rightarrow> 'a \<Rightarrow> 'a list \<Rightarrow> 'a list" where
  "js_insert cmp x [] = [x]"
| "js_insert cmp x (y # ys) =
     (if cmp x y \<le> 0 then x # y # ys else y # js_insert cmp x ys)"

fun js_sort :: "('a \<Rightarrow> 'a \<Rightarrow> int) \<Rightarrow> 'a list \<Rightarrow> 'a list" where
  \<comment> \<open>\<open>Array.prototype.sort(cmp)\<close>: ECMAScript requires a stable sort, whose result is
      determined by the comparator; computed here by insertion from the right\<close>
  "js_sort cmp [] = []"
| "js_sort cmp (x # xs) = js_insert cmp x (js_sort cmp xs)"

definition js_slice :: "'a list \<Rightarrow> int \<Rightarrow> int option \<Rightarrow> 'a list" where
  \<comment> \<open>\<open>xs.slice(start, end)\<close>; \<open>None\<close> is an omitted \<open>end\<close>; a negative index counts
      from the end of the array\<close>
  "js_slice xs start end =
     (let len = int (length xs);
          k = (if start < 0 then max (len + start) 0 else min start len);
          fin = (case end of
                   None \<Rightarrow> len
                 | Some e \<Rightarrow> if e < 0 then max (len + e) 0 else min e len)
      in take (nat (fin - k)) (drop (nat k) xs))"

section \<open>Tables of \<open>shared/schema.ts\<close>\<close>

text \<open>
  A row is a record of the columns that the functions below read. A nullable column
  is an \<open>option\<close>, \<open>None\<close> being SQL \<open>NULL\<close> (JavaScript \<open>null\<close>). A \<open>date\<close> column is
  read as its \<open>YYYY-MM-DD\<close> string.
\<close>

record Member =
  m_id :: string
  m_mhtId :: string
  m_name :: string
  m_isAdmin :: "bool option"
  m_userId :: "string option"

record Story =
  s_id :: string
  s_name :: string
  s_isActive :: "bool option"

record Role =
  r_id :: string
  r_name :: string
  r_isActive :: "bool option"

record Attendance =
  a_id :: string
  a_memberId :: string
  a_date :: string
  a_status :: string
  a_storyId :: "string option"
  a_roleId :: "string option"
  a_reason :: "string option"
  a_replacedMemberId :: "string option"
  a_eventType :: "string option"

record Poll =
  p_id :: string
  p_question :: string
  p_options :: "string list"
  p_createdAt :: string

record PollResponse =
  pr_id :: string
  pr_pollId :: string
  pr_memberId :: string
  pr_selectedOption :: int
  pr_createdAt :: string

text \<open>The database: each table as the list of its rows, in the order an unordered
  \<open>select\<close> enumerates them.\<close>

record store =
  tbl_members :: "Member list"
  tbl_stories :: "Story list"
  tbl_roles :: "Role list"
  tbl_attendance :: "Attendance list"
  tbl_polls :: "Poll list"
  tbl_pollResponses :: "PollResponse list"

section \<open>\<open>DatabaseStorage.getReportStats\<close>\<close>

record memberStat =
  name :: string
  percentage :: int

record reportStats =
  totalMembers :: nat
  averageAttendance :: int
  topPerformers :: "memberStat list"
  lowPerformers :: "memberStat list"

definition memberPercentage :: "Attendance list \<Rightarrow> Member \<Rightarrow> int" where
  "memberPercentage allAttendance member =
     (let memberAttendance = filter (\<lambda>a. a_memberId a = m_id member) allAttendance;
          presentCount =
            length (filter (\<lambda>a. a_status a = ''present'' \<or> a_status a = ''replaced'')
                      memberAttendance)
      in if length memberAttendance > 0
         then Math_round
                (js_mul (js_div (of_nat presentCount) (of_nat (length memberAttendance))) 100)
         else 0)"

definition memberStats :: "store \<Rightarrow> memberStat list" where
  "memberStats st =
     map (\<lambda>member. \<lparr>name = m_name member,
                     percentage = memberPercentage (tbl_attendance st) member\<rparr>)
       (tbl_members st)"

definition byPercentageDesc :: "memberStat \<Rightarrow> memberStat \<Rightarrow> int" where
  "byPercentageDesc a b = percentage b - percentage a"

definition getReportStats :: "store \<Rightarrow> reportStats" where
  \<comment> \<open>\<open>memberStats.sort\<close> sorts in place, so the \<open>reduce\<close> that follows it runs over
      the sorted array\<close>
  "getReportStats st =
     (let sorted = js_sort byPercentageDesc (memberStats st);
          average =
            (if length sorted > 0
             then Math_round
                    (js_div (of_int (foldl (\<lambda>sum m. sum + percentage m) 0 sorted))
                       (of_nat (length sorted)))
             else 0)
      in \<lparr>totalMembers = length (tbl_members st),
          averageAttendance = average,
          topPerformers = js_slice sorted 0 (Some 3),
          lowPerformers = rev (js_slice sorted (- 3) None)\<rparr>)"

section \<open>Queries of \<open>DatabaseStorage\<close>\<close>

text \<open>
  \<open>ORDER BY\<close> is modelled by a stable sort on the column under the byte order of
  strings. The collation of the database may order names differently; the results
  below use only that an ordered query returns the selected rows, each once.
\<close>

definition orderBy :: "('a \<Rightarrow> string) \<Rightarrow> 'a list \<Rightarrow> 'a list" where
  "orderBy col rows = sort_key col rows"

definition orderByDesc :: "('a \<Rightarrow> string) \<Rightarrow> 'a list \<Rightarrow> 'a list" where
  "orderByDesc col rows = rev (sort_key col rows)"

definition getMemberByUserId :: "store \<Rightarrow> string \<Rightarrow> Member option" where
  "getMemberByUserId st userId =
     (case filter (\<lambda>m. m_userId m = Some userId) (tbl_members st) of
        [] \<Rightarrow> None
      | member # _ \<Rightarrow> Some member)"

definition getMembers :: "store \<Rightarrow> Member list" where
  "getMembers st = orderBy m_name (tbl_members st)"

definition getStories :: "store \<Rightarrow> Story list" where
  "getStories st = orderBy s_name (filter (\<lambda>s. s_isActive s = Some True) (tbl_stories st))"

definition getStory :: "store \<Rightarrow> string \<Rightarrow> Story option" where
  "getStory st ident =
     (case filter (\<lambda>s. s_id s = ident) (tbl_stories st) of
        [] \<Rightarrow> None
      | story # _ \<Rightarrow> Some story)"

definition deleteStory :: "store \<Rightarrow> string \<Rightarrow> store" where
  "deleteStory st ident =
     st\<lparr>tbl_stories :=
          map (\<lambda>s. if s_id s = ident then s\<lparr>s_isActive := Some False\<rparr> else s)
            (tbl_stories st)\<rparr>"

definition getAllAttendance :: "store \<Rightarrow> Attendance list" where
  "getAllAttendance st = orderByDesc a_date (tbl_attendance st)"

definition getPolls :: "store \<Rightarrow> Poll list" where
  "getPolls st = orderByDesc p_createdAt (tbl_polls st)"

subsection \<open>\<open>getAttendanceWithDetails\<close>\<close>

text \<open>
  \<open>Array.prototype.find\<close> returns the first match or \<open>undefined\<close>. A row's \<open>id\<close> is a
  string, so it is never \<open>===\<close> to a \<open>null\<close> foreign key.
\<close>

record AttendanceWithDetails =
  d_record :: Attendance
  d_member :: "Member option"
  d_story :: "Story option"
  d_role :: "Role option"
  d_replacedMember :: "Member option"

definition getAttendanceWithDetails :: "store \<Rightarrow> AttendanceWithDetails list" where
  "getAttendanceWithDetails st =
     (let allAttendance = orderByDesc a_date (tbl_attendance st);
          allMembers = tbl_members st;
          allStories = tbl_stories st;
          allRoles = tbl_roles st
      in map (\<lambda>record.
            \<lparr>d_record = record,
             d_member = find (\<lambda>m. m_id m = a_memberId record) allMembers,
             d_story = find (\<lambda>s. Some (s_id s) = a_storyId record) allStories,
             d_role = find (\<lambda>r. Some (r_id r) = a_roleId record) allRoles,
             d_replacedMember =
               find (\<lambda>m. Some (m_id m) = a_replacedMemberId record) allMembers\<rparr>)
           allAttendance)"

section \<open>Export routes of \<open>registerRoutes\<close>\<close>

text \<open>
  What the handlers take from the JavaScript runtime is a parameter: the time value of
  \<open>new Date(s)\<close> (\<open>None\<close> for an invalid date, whose comparisons are all false), the
  locale's rendering of a date and of a date with time, and \<open>toUpperCase\<close>.
\<close>

record js_env =
  Date_valueOf :: "string \<Rightarrow> int option"
  toLocaleDateString :: "string \<Rightarrow> string"
  toLocaleString :: "string \<Rightarrow> string"
  toUpperCase :: "string \<Rightarrow> string"

definition date_lt :: "int option \<Rightarrow> int option \<Rightarrow> bool" where
  "date_lt a b = (case (a, b) of (Some x, Some y) \<Rightarrow> x < y | _ \<Rightarrow> False)"

definition truthy :: "string option \<Rightarrow> bool" where
  \<comment> \<open>\<open>undefined\<close>, \<open>null\<close> and the empty string are falsy\<close>
  "truthy v = (case v of None \<Rightarrow> False | Some s \<Rightarrow> s \<noteq> [])"

definition js_or :: "string option \<Rightarrow> string \<Rightarrow> string" where
  \<comment> \<open>\<open>v || d\<close>\<close>
  "js_or v d = (case v of None \<Rightarrow> d | Some s \<Rightarrow> if s = [] then d else s)"

definition js_index :: "'a list \<Rightarrow> int \<Rightarrow> 'a option" where
  \<comment> \<open>\<open>xs[i]\<close>: \<open>undefined\<close> out of range\<close>
  "js_index xs i = (if 0 \<le> i \<and> i < int (length xs) then Some (xs ! nat i) else None)"

text \<open>
  The request body: a field of \<open>filters\<close> is a string or absent (\<open>None\<close>, JavaScript
  \<open>undefined\<close>). The strict inequality \<open>!==\<close> of a column with a filter value holds
  unless both are strings and equal: \<open>null !== undefined\<close> is true.
\<close>

record filters =
  dateFrom :: "string option"
  dateTo :: "string option"
  statusFilter :: "string option"
  storyFilter :: "string option"
  memberFilter :: "string option"
  eventFilter :: "string option"

record reportsExportBody =
  rq_format :: "string option"
  rq_filters :: "filters option"

record pollsExportBody =
  pq_pollId :: "string option"
  pq_format :: "string option"

definition strict_neq :: "string option \<Rightarrow> string option \<Rightarrow> bool" where
  "strict_neq column v =
     (case (column, v) of (Some x, Some y) \<Rightarrow> x \<noteq> y | _ \<Rightarrow> True)"

definition new_Date :: "js_env \<Rightarrow> string option \<Rightarrow> int option" where
  \<comment> \<open>\<open>new Date(undefined)\<close> is an invalid date\<close>
  "new_Date env v = (case v of None \<Rightarrow> None | Some s \<Rightarrow> Date_valueOf env s)"

definition keepRecord :: "js_env \<Rightarrow> filters \<Rightarrow> Attendance \<Rightarrow> bool" where
  "keepRecord env f record =
     (if truthy (dateFrom f)
         \<and> date_lt (new_Date env (Some (a_date record))) (new_Date env (dateFrom f))
      then False
      else if truthy (dateTo f)
         \<and> date_lt (new_Date env (dateTo f)) (new_Date env (Some (a_date record)))
      then False
      else if statusFilter f \<noteq> Some ''all''
         \<and> strict_neq (Some (a_status record)) (statusFilter f)
      then False
      else if storyFilter f \<noteq> Some ''all''
         \<and> strict_neq (a_storyId record) (storyFilter f)
      then False
      else if memberFilter f \<noteq> Some ''all''
         \<and> strict_neq (Some (a_memberId record)) (memberFilter f)
      then False
      else True)"

definition filterAttendance :: "js_env \<Rightarrow> filters option \<Rightarrow> Attendance list \<Rightarrow> Attendance list" where
  "filterAttendance env fs allAttendance =
     (case fs of
        None \<Rightarrow> allAttendance
      | Some f \<Rightarrow> filter (keepRecord env f) allAttendance)"

subsection \<open>Responses\<close>

datatype pdf_op = AddPage | Text string

datatype cell = S string | N int

record attendanceImage =
  totalRecords :: nat
  presentTotal :: nat
  absentTotal :: nat
  replacedTotal :: nat
  tableRows :: "(int \<times> string list) list"

record pollBar =
  optionLabel :: string
  votes :: nat
  percent :: int
  barWidth :: rat

record pollImage =
  imageQuestion :: string
  imageTotal :: nat
  bars :: "(int \<times> pollBar) list"

datatype body =
    Sheet "string list list"
  | KeyedSheet "(string \<times> cell) list list"
  | Document "pdf_op list"
  | AttendanceCanvas attendanceImage
  | PollCanvas pollImage

text \<open>
  \<open>Json code message\<close> is \<open>res.status(code).json({message})\<close>, \<open>Sent type file b\<close> the
  rendered export with its \<open>Content-Type\<close> and file name, and \<open>NoResponse\<close> a handler
  that returns without having written a header or a body.
\<close>

datatype response =
    Json nat string
  | Sent string string body
  | NoResponse

definition isAdmin :: "Member option \<Rightarrow> bool" where
  \<comment> \<open>\<open>currentMember?.isAdmin\<close> is truthy\<close>
  "isAdmin currentMember =
     (case currentMember of None \<Rightarrow> False | Some m \<Rightarrow> m_isAdmin m = Some True)"

subsection \<open>\<open>POST /api/reports/export\<close>\<close>

text \<open>
  The rows of \<open>getAllAttendance\<close> carry the columns of the \<open>attendance\<close> table and no
  others, so \<open>record.role\<close> and \<open>record.replacedBy\<close> are \<open>undefined\<close> on every row.
\<close>

definition record_role :: "Attendance \<Rightarrow> string option" where
  "record_role record = None"

definition record_replacedBy :: "Attendance \<Rightarrow> string option" where
  "record_replacedBy record = None"

definition memberOf :: "Member list \<Rightarrow> Attendance \<Rightarrow> Member option" where
  "memberOf members record = find (\<lambda>m. m_id m = a_memberId record) members"

definition storyOf :: "Story list \<Rightarrow> Attendance \<Rightarrow> Story option" where
  "storyOf stories record = find (\<lambda>s. Some (s_id s) = a_storyId record) stories"

definition excelRow :: "js_env \<Rightarrow> Member list \<Rightarrow> Story list \<Rightarrow> Attendance \<Rightarrow> string list" where
  "excelRow env members stories record =
     [toLocaleDateString env (a_date record),
      js_or (map_option m_name (memberOf members record)) [],
      js_or (map_option s_name (storyOf stories record)) [],
      js_or (record_role record) [],
      a_status record,
      js_or (record_replacedBy record) []]"

definition ws_data :: "js_env \<Rightarrow> Member list \<Rightarrow> Story list \<Rightarrow> Attendance list \<Rightarrow> string list list" where
  "ws_data env members stories filtered =
     [''Date'', ''Member'', ''Story'', ''Role'', ''Status'', ''Replaced By'']
       # map (excelRow env members stories) filtered"

definition pdfLine :: "js_env \<Rightarrow> Member list \<Rightarrow> Story list \<Rightarrow> Attendance \<Rightarrow> string" where
  "pdfLine env members stories record =
     toLocaleDateString env (a_date record) @ '' - ''
       @ js_or (map_option m_name (memberOf members record)) ''Unknown'' @ '' - ''
       @ js_or (map_option s_name (storyOf stories record)) ''Unknown'' @ '' - ''
       @ toUpperCase env (a_status record)"

definition pdfOps :: "js_env \<Rightarrow> Member list \<Rightarrow> Story list \<Rightarrow> Attendance list \<Rightarrow> pdf_op list" where
  "pdfOps env members stories filtered =
     concat (map (\<lambda>(idx, record).
                (if idx mod 10 = 0 \<and> idx > 0 then [AddPage] else [])
                  @ [Text (pdfLine env members stories record)])
             (enumerate 0 (js_slice filtered 0 (Some 100))))"

fun textsOf :: "pdf_op list \<Rightarrow> string list" where
  \<comment> \<open>the lines of text of a document, in order\<close>
  "textsOf [] = []"
| "textsOf (AddPage # ops) = textsOf ops"
| "textsOf (Text t # ops) = t # textsOf ops"

definition truncate :: "string \<Rightarrow> nat \<Rightarrow> string" where
  "truncate text maxLen =
     (if length text > maxLen then take (maxLen - 2) text @ ''..'' else text)"

definition imageCells :: "js_env \<Rightarrow> Member list \<Rightarrow> Story list \<Rightarrow> Attendance \<Rightarrow> string list" where
  "imageCells env members stories record =
     [truncate (toLocaleDateString env (a_date record)) 15,
      truncate (js_or (map_option m_name (memberOf members record)) ''Unknown'') 20,
      truncate (js_or (map_option s_name (storyOf stories record)) ''-'') 25,
      truncate (js_or (record_role record) ''-'') 12,
      truncate (a_status record) 10,
      truncate (js_or (record_replacedBy record) ''-'') 15]"

fun imageRows :: "js_env \<Rightarrow> Member list \<Rightarrow> Story list \<Rightarrow> int \<Rightarrow> Attendance list \<Rightarrow> (int \<times> string list) list" where
  \<comment> \<open>the \<open>forEach\<close> over \<open>filtered\<close>, \<open>y\<close> being the ordinate of the next row\<close>
  "imageRows env members stories y [] = []"
| "imageRows env members stories y (record # rest) =
     (if y > 1500 then imageRows env members stories y rest
      else (y, imageCells env members stories record)
             # imageRows env members stories (y + 25) rest)"

definition attendanceCanvas :: "js_env \<Rightarrow> Member list \<Rightarrow> Story list \<Rightarrow> Attendance list \<Rightarrow> attendanceImage" where
  "attendanceCanvas env members stories filtered =
     \<lparr>totalRecords = length filtered,
      presentTotal = length (filter (\<lambda>r. a_status r = ''present'') filtered),
      absentTotal = length (filter (\<lambda>r. a_status r = ''absent'') filtered),
      replacedTotal = length (filter (\<lambda>r. a_status r = ''replaced'') filtered),
      tableRows = imageRows env members stories 280 filtered\<rparr>"

definition exportReports :: "js_env \<Rightarrow> store \<Rightarrow> string \<Rightarrow> reportsExportBody \<Rightarrow> response" where
  "exportReports env st userId req =
     (let currentMember = getMemberByUserId st userId
      in if \<not> isAdmin currentMember then Json 403 ''Forbidden''
         else
           let allAttendance = getAllAttendance st;
               members = getMembers st;
               stories = getStories st;
               filtered = filterAttendance env (rq_filters req) allAttendance
           in if rq_format req = Some ''excel''
              then Sent ''application/vnd.openxmlformats-officedocument.spreadsheetml.sheet''
                     ''attendance-report.xlsx''
                     (Sheet (ws_data env members stories filtered))
              else if rq_format req = Some ''pdf''
              then Sent ''application/pdf'' ''attendance-report.pdf''
                     (Document (pdfOps env members stories filtered))
              else if rq_format req = Some ''image''
              then Sent ''image/jpeg'' ''attendance-report.jpg''
                     (AttendanceCanvas (attendanceCanvas env members stories filtered))
              else NoResponse)"

subsection \<open>\<open>POST /api/polls/export\<close>\<close>

text \<open>
  \<open>storage\<close> is the \<open>DatabaseStorage\<close> instance. The class declares no member \<open>db\<close>
  (the \<open>db\<close> of \<open>storage.ts\<close> is a module import), so \<open>storage.db\<close> is \<open>undefined\<close>
  and the optional chain \<open>storage.db?.query?.pollResponses?.findMany?.(...)\<close> yields
  \<open>undefined\<close> without reading the table.
\<close>

definition storage_db_findMany :: "store \<Rightarrow> string option \<Rightarrow> PollResponse list option" where
  "storage_db_findMany st pollId = None"

definition pollResponsesOf :: "store \<Rightarrow> string option \<Rightarrow> PollResponse list" where
  \<comment> \<open>\<open>await storage.db?.query?.pollResponses?.findMany?.({ where: { pollId } }) || []\<close>\<close>
  "pollResponsesOf st pollId =
     (case storage_db_findMany st pollId of None \<Rightarrow> [] | Some rs \<Rightarrow> rs)"

definition responderName :: "Member list \<Rightarrow> PollResponse \<Rightarrow> string" where
  "responderName members r =
     js_or (map_option m_name (find (\<lambda>m. m_id m = pr_memberId r) members)) ''Unknown''"

definition chosenOption :: "Poll \<Rightarrow> PollResponse \<Rightarrow> string" where
  "chosenOption poll r = js_or (js_index (p_options poll) (pr_selectedOption r)) ''Unknown''"

definition pollSheet :: "js_env \<Rightarrow> Poll \<Rightarrow> Member list \<Rightarrow> PollResponse list \<Rightarrow> (string \<times> cell) list list" where
  "pollSheet env poll members responses =
     [[(''Poll Question'', S (p_question poll))],
      [(''Total Responses'', N (int (length responses)))],
      []]
     @ map (\<lambda>r. [(''Member Name'', S (responderName members r)),
                  (''Selected Option'', S (chosenOption poll r)),
                  (''Response Time'', S (toLocaleString env (pr_createdAt r)))])
         responses"

fun pollPdfLines :: "Poll \<Rightarrow> Member list \<Rightarrow> int \<Rightarrow> PollResponse list \<Rightarrow> pdf_op list" where
  "pollPdfLines poll members y [] = []"
| "pollPdfLines poll members y (r # rest) =
     (let line = Text (responderName members r @ '': '' @ chosenOption poll r)
      in if y > 700 then AddPage # line # pollPdfLines poll members (50 + 20) rest
         else line # pollPdfLines poll members (y + 20) rest)"

definition pollBars :: "Poll \<Rightarrow> PollResponse list \<Rightarrow> (int \<times> pollBar) list" where
  \<comment> \<open>one bar for each option, at ordinate \<open>220 + 35 * idx\<close>\<close>
  "pollBars poll responses =
     map (\<lambda>(idx, option).
            let count = length (filter (\<lambda>r. pr_selectedOption r = int idx) responses);
                pct = (if length responses > 0
                       then Math_round
                              (js_mul (js_div (of_nat count) (of_nat (length responses))) 100)
                       else 0)
            in (220 + 35 * int idx,
                \<lparr>optionLabel = option, votes = count, percent = pct,
                 barWidth = js_mul (js_div (of_int pct) 100) 800\<rparr>))
       (enumerate 0 (p_options poll))"

definition exportPoll :: "js_env \<Rightarrow> store \<Rightarrow> string \<Rightarrow> pollsExportBody \<Rightarrow> response" where
  "exportPoll env st userId req =
     (let currentMember = getMemberByUserId st userId
      in if \<not> isAdmin currentMember then Json 403 ''Forbidden''
         else
           case find (\<lambda>p. Some (p_id p) = pq_pollId req) (getPolls st) of
             None \<Rightarrow> Json 404 ''Poll not found''
           | Some poll \<Rightarrow>
               if pq_format req = Some ''excel''
               then let responses = pollResponsesOf st (pq_pollId req);
                        members = getMembers st
                    in Sent ''application/vnd.openxmlformats-officedocument.spreadsheetml.sheet''
                         ''poll-results.xlsx''
                         (KeyedSheet (pollSheet env poll members responses))
               else if pq_format req = Some ''pdf''
               then let responses = pollResponsesOf st (pq_pollId req);
                        members = getMembers st
                    in Sent ''application/pdf'' ''poll-results.pdf''
                         (Document (pollPdfLines poll members 150 (js_slice responses 0 (Some 100))))
               else if pq_format req = Some ''image''
               then let responses = pollResponsesOf st (pq_pollId req)
                    in Sent ''image/jpeg'' ''poll-results.jpg''
                         (PollCanvas \<lparr>imageQuestion = p_question poll,
                                      imageTotal = length responses,
                                      bars = pollBars poll responses\<rparr>)
               else NoResponse)"

section \<open>The attendance table of \<open>AdminAttendance.tsx\<close>\<close>

text \<open>
  The admin page receives the joined records of \<open>getAttendanceWithDetails\<close> as JSON,
  in which an absent relation is a missing property. Of each table row, the cells that
  show a relation: member, story, role and the last column.
\<close>

definition relationCells :: "AttendanceWithDetails \<Rightarrow> string list" where
  "relationCells record =
     [js_or (map_option m_name (d_member record)) ''Unknown'',
      js_or (map_option s_name (d_story record)) ''-'',
      js_or (map_option r_name (d_role record)) ''-'',
      (if a_status (d_record record) = ''absent'' \<and> truthy (a_reason (d_record record))
       then ''Reason: '' @ js_or (a_reason (d_record record)) []
       else if a_status (d_record record) = ''replaced''
       then (case d_replacedMember record of
               None \<Rightarrow> ''-''
             | Some m \<Rightarrow> ''Replaced: '' @ m_name m)
       else ''-'')]"

section \<open>Example data\<close>

definition exampleDates :: "string \<Rightarrow> int option" where
  \<comment> \<open>milliseconds since the epoch of three days at midnight UTC\<close>
  "exampleDates s =
     (if s = ''2024-01-08'' then Some 1704672000000
      else if s = ''2024-01-09'' then Some 1704758400000
      else if s = ''2024-01-10'' then Some 1704844800000
      else None)"

definition asciiUpper :: "string \<Rightarrow> string" where
  "asciiUpper s =
     map (\<lambda>c. if CHR ''a'' \<le> c \<and> c \<le> CHR ''z''
              then char_of (of_char c - (32::nat)) else c) s"

definition env0 :: js_env where
  "env0 = \<lparr>Date_valueOf = exampleDates, toLocaleDateString = (\<lambda>s. s),
            toLocaleString = (\<lambda>s. s), toUpperCase = asciiUpper\<rparr>"

definition mkMember :: "string \<Rightarrow> string \<Rightarrow> bool \<Rightarrow> Member" where
  "mkMember ident nm admin =
     \<lparr>m_id = ident, m_mhtId = ''MHT-'' @ ident, m_name = nm,
      m_isAdmin = Some admin, m_userId = Some (''u-'' @ ident)\<rparr>"

definition mkAttendance :: "string \<Rightarrow> string \<Rightarrow> Attendance" where
  "mkAttendance memberId status =
     \<lparr>a_id = ''a'', a_memberId = memberId, a_date = ''2024-01-10'', a_status = status,
      a_storyId = None, a_roleId = None, a_reason = None, a_replacedMemberId = None,
      a_eventType = None\<rparr>"

definition store40 :: store where
  \<comment> \<open>one member with 40 attendance records, 23 of them present\<close>
  "store40 =
     \<lparr>tbl_members = [mkMember ''m1'' ''Asha'' False],
      tbl_stories = [], tbl_roles = [],
      tbl_attendance =
        replicate 23 (mkAttendance ''m1'' ''present'')
          @ replicate 17 (mkAttendance ''m1'' ''absent''),
      tbl_polls = [], tbl_pollResponses = []\<rparr>"

definition store5 :: store where
  \<comment> \<open>five members, enumerated with the percentages 70, 50, 90, 60 and 80\<close>
  "store5 =
     \<lparr>tbl_members =
        [mkMember ''m3'' ''Chitra'' False, mkMember ''m5'' ''Esha'' False,
         mkMember ''m1'' ''Asha'' True, mkMember ''m4'' ''Dev'' False,
         mkMember ''m2'' ''Bina'' False],
      tbl_stories = [], tbl_roles = [],
      tbl_attendance =
        replicate 9 (mkAttendance ''m1'' ''present'') @ [mkAttendance ''m1'' ''absent'']
          @ replicate 4 (mkAttendance ''m2'' ''replaced'') @ [mkAttendance ''m2'' ''absent'']
          @ replicate 7 (mkAttendance ''m3'' ''present'')
          @ replicate 3 (mkAttendance ''m3'' ''absent'')
          @ replicate 3 (mkAttendance ''m4'' ''present'')
          @ replicate 2 (mkAttendance ''m4'' ''absent'')
          @ [mkAttendance ''m5'' ''present'', mkAttendance ''m5'' ''absent''],
      tbl_polls = [], tbl_pollResponses = []\<rparr>"

definition recordJJ :: Attendance where
  "recordJJ =
     \<lparr>a_id = ''a1'', a_memberId = ''m1'', a_date = ''2024-01-10'', a_status = ''present'',
      a_storyId = Some ''s1'', a_roleId = Some ''r1'', a_reason = None,
      a_replacedMemberId = None, a_eventType = Some ''JJ''\<rparr>"

definition recordHoli :: Attendance where
  "recordHoli =
     \<lparr>a_id = ''a2'', a_memberId = ''m2'', a_date = ''2024-01-09'', a_status = ''replaced'',
      a_storyId = Some ''s2'', a_roleId = Some ''r1'', a_reason = None,
      a_replacedMemberId = Some ''m1'', a_eventType = Some ''Holi''\<rparr>"

definition recordDangling :: Attendance where
  "recordDangling =
     \<lparr>a_id = ''a3'', a_memberId = ''m9'', a_date = ''2024-01-08'', a_status = ''replaced'',
      a_storyId = Some ''s9'', a_roleId = Some ''r9'', a_reason = None,
      a_replacedMemberId = Some ''m8'', a_eventType = None\<rparr>"

definition mkResponse :: "string \<Rightarrow> string \<Rightarrow> int \<Rightarrow> PollResponse" where
  "mkResponse ident memberId opt =
     \<lparr>pr_id = ident, pr_pollId = ''p1'', pr_memberId = memberId, pr_selectedOption = opt,
      pr_createdAt = ''2024-01-10T10:00:00Z''\<rparr>"

definition pollAB :: Poll where
  "pollAB = \<lparr>p_id = ''p1'', p_question = ''Next show?'', p_options = [''A'', ''B''],
             p_createdAt = ''2024-01-09T09:00:00Z''\<rparr>"

definition responsesAB :: "PollResponse list" where
  "responsesAB =
     [mkResponse ''x1'' ''m1'' 0, mkResponse ''x2'' ''m2'' 1,
      mkResponse ''x3'' ''m3'' 0, mkResponse ''x4'' ''m4'' 0]"

definition store0 :: store where
  \<comment> \<open>an admin and a member; story \<open>s2\<close> soft-deleted; one record with dangling keys\<close>
  "store0 =
     \<lparr>tbl_members = [mkMember ''m1'' ''Asha'' True, mkMember ''m2'' ''Bina'' False],
      tbl_stories =
        [\<lparr>s_id = ''s1'', s_name = ''Ramayan'', s_isActive = Some True\<rparr>,
         \<lparr>s_id = ''s2'', s_name = ''Holi Katha'', s_isActive = Some False\<rparr>],
      tbl_roles = [\<lparr>r_id = ''r1'', r_name = ''AV'', r_isActive = Some True\<rparr>],
      tbl_attendance = [recordJJ, recordHoli, recordDangling],
      tbl_polls = [pollAB],
      tbl_pollResponses = responsesAB\<rparr>"

definition allFilters :: filters where
  \<comment> \<open>what the reports page sends when no filter is chosen\<close>
  "allFilters =
     \<lparr>dateFrom = Some [], dateTo = Some [], statusFilter = Some ''all'',
      storyFilter = Some ''all'', memberFilter = Some ''all'', eventFilter = Some ''all''\<rparr>"

definition responses40 :: "PollResponse list" where
  \<comment> \<open>40 responses, 23 of them for option 0\<close>
  "responses40 =
     replicate 23 (mkResponse ''x'' ''m1'' 0) @ replicate 17 (mkResponse ''x'' ''m2'' 1)"

section \<open>Rounding: error bound and exact cases\<close>

lemma binade_bounds:
  assumes "0 < x"
  shows "2 powi binade x \<le> x" and "x < 2 powi (binade x + 1)"
proof -
  obtain a b where q: "quotient_of x = (a, b)" by (cases "quotient_of x")
  have b: "0 < b" using quotient_of_denom_pos [OF q] .
  have x: "x = of_int a / of_int b" using quotient_of_div [OF q] .
  have a: "0 < a" using assms b x by (simp add: zero_less_divide_iff)
  define la where "la = bitlen a"
  define lb where "lb = bitlen b"
  have la1: "1 \<le> la" and lb1: "1 \<le> lb"
    using a b bitlen_eq_zero_iff [of a] bitlen_eq_zero_iff [of b]
      bitlen_nonneg [of a] bitlen_nonneg [of b]
    by (auto simp: la_def lb_def)
  have ba: "(2::rat) powi (la - 1) \<le> of_int a" "of_int a < (2::rat) powi la"
  proof -
    have "(2::int) ^ nat (la - 1) \<le> a" "a < 2 ^ nat la"
      using bitlen_bounds [OF a] by (auto simp: la_def)
    then have "(of_int (2 ^ nat (la - 1)) :: rat) \<le> of_int a"
      "(of_int a :: rat) < of_int (2 ^ nat la)"
      by (simp_all only: of_int_le_iff of_int_less_iff)
    then show "(2::rat) powi (la - 1) \<le> of_int a" "of_int a < (2::rat) powi la"
      using la1 by (simp_all add: power_int_def)
  qed
  have bb: "(2::rat) powi (lb - 1) \<le> of_int b" "of_int b < (2::rat) powi lb"
  proof -
    have "(2::int) ^ nat (lb - 1) \<le> b" "b < 2 ^ nat lb"
      using bitlen_bounds [OF b] by (auto simp: lb_def)
    then have "(of_int (2 ^ nat (lb - 1)) :: rat) \<le> of_int b"
      "(of_int b :: rat) < of_int (2 ^ nat lb)"
      by (simp_all only: of_int_le_iff of_int_less_iff)
    then show "(2::rat) powi (lb - 1) \<le> of_int b" "of_int b < (2::rat) powi lb"
      using lb1 by (simp_all add: power_int_def)
  qed
  have bpos: "(0::rat) < of_int b" using b by simp
  have lo: "(2::rat) powi (la - lb - 1) < x"
  proof -
    have "(2::rat) powi (la - lb - 1) * of_int b < 2 powi (la - lb - 1) * 2 powi lb"
      using bb(2) by (simp add: mult_strict_left_mono)
    also have "\<dots> = 2 powi (la - 1)"
      by (simp add: power_int_add [symmetric])
    also have "\<dots> \<le> of_int a" using ba(1) .
    finally show ?thesis using bpos by (simp add: x pos_less_divide_eq)
  qed
  have hi: "x < (2::rat) powi (la - lb + 1)"
  proof -
    have "of_int a < (2::rat) powi la" using ba(2) .
    also have "\<dots> = 2 powi (la - lb + 1) * 2 powi (lb - 1)"
      by (simp add: power_int_add [symmetric])
    also have "\<dots> \<le> 2 powi (la - lb + 1) * of_int b"
      using bb(1) by (simp add: mult_left_mono)
    finally show ?thesis using bpos by (simp add: x pos_divide_less_eq)
  qed
  have bin: "binade x = (if 2 powi (la - lb) \<le> x then la - lb else la - lb - 1)"
    by (simp add: binade_def q la_def lb_def Let_def)
  show "2 powi binade x \<le> x"
    using lo by (auto simp: bin)
  show "x < 2 powi (binade x + 1)"
    using hi by (auto simp: bin not_le)
qed

lemma round_half_even_error: "\<bar>of_int (round_half_even y) - y\<bar> \<le> 1 / 2"
proof -
  have "of_int \<lfloor>y\<rfloor> \<le> y" "y < of_int \<lfloor>y\<rfloor> + 1" by linarith+
  then show ?thesis
    by (auto simp: round_half_even_def Let_def)
qed

lemma round_half_even_of_int [simp]: "round_half_even (of_int n) = n"
  by (simp add: round_half_even_def)

lemma fl_pos_error:
  assumes "0 < x"
  shows "\<bar>fl_pos x - x\<bar> \<le> 2 powi (binade x - 53)"
proof -
  define e where "e = binade x - 52"
  define y where "y = x / 2 powi e"
  have p: "(0::rat) < 2 powi e" by simp
  have x: "x = y * 2 powi e" by (simp add: y_def)
  have f: "fl_pos x = of_int (round_half_even y) * 2 powi e"
    by (simp add: fl_pos_def Let_def e_def y_def)
  have "fl_pos x - x = (of_int (round_half_even y) - y) * 2 powi e"
    unfolding f using x by (simp add: algebra_simps)
  then have "\<bar>fl_pos x - x\<bar> = \<bar>of_int (round_half_even y) - y\<bar> * 2 powi e"
    by (simp add: abs_mult)
  also have "\<dots> \<le> 1 / 2 * 2 powi e"
    using round_half_even_error [of y] p by (simp add: mult_right_mono)
  also have "\<dots> = 2 powi (binade x - 53)"
  proof -
    have "(2::rat) powi (binade x - 53 + 1) = 2 powi (binade x - 53) * 2 powi 1"
      by (rule power_int_add) simp
    moreover have "binade x - 53 + 1 = e" by (simp add: e_def)
    ultimately show ?thesis by simp
  qed
  finally show ?thesis .
qed

lemma fl_pos_rel_error:
  assumes "0 < x"
  shows "\<bar>fl_pos x - x\<bar> \<le> x / 2 ^ 53"
proof -
  define c :: rat where "c = 2 powi (- 53)"
  have c: "c = 1 / 2 ^ 53" "0 \<le> c"
    unfolding c_def
    by (simp only: power_int_minus_divide power_int_numeral,
        rule zero_le_power_int, rule zero_le_numeral)
  have e53: "binade x - 53 = binade x + (- 53)" by arith
  have "(2::rat) powi (binade x - 53) = 2 powi binade x * c"
    unfolding e53 c_def by (rule power_int_add) simp
  also have "\<dots> \<le> x * c"
    using binade_bounds(1) [OF assms] c(2) by (rule mult_right_mono)
  also have "\<dots> = x / 2 ^ 53"
    by (simp only: c(1) times_divide_eq_right mult_1_right)
  finally show ?thesis using fl_pos_error [OF assms] by linarith
qed

lemma fl_pos_exact:
  assumes m: "0 < m" "m < 2 ^ 53" and x: "x = of_int m * 2 powi k"
  shows "fl_pos x = x"
proof -
  have xpos: "0 < x" using m by (simp add: x)
  define e where "e = binade x - 52"
  have "(2::rat) powi binade x \<le> x" using binade_bounds(1) [OF xpos] .
  also have "x < 2 ^ 53 * 2 powi k"
  proof -
    have "(of_int m :: rat) < of_int (2 ^ 53)" using m(2) by (simp only: of_int_less_iff)
    then show ?thesis by (simp add: x)
  qed
  also have "(2::rat) ^ 53 * 2 powi k = 2 powi (53 + k)"
    by (simp add: power_int_add)
  finally have lt: "(2::rat) powi binade x < 2 powi (53 + k)" .
  have "binade x < 53 + k"
  proof (rule ccontr)
    assume "\<not> binade x < 53 + k"
    then have "53 + k \<le> binade x" by simp
    then have "(2::rat) powi (53 + k) \<le> 2 powi binade x"
      by (rule power_int_increasing) simp
    with lt show False by simp
  qed
  then have ke: "0 \<le> k - e" by (simp add: e_def)
  have "x / 2 powi e = of_int m * 2 powi (k - e)"
    by (simp add: x power_int_diff)
  also have "\<dots> = of_int (m * 2 ^ nat (k - e))"
    using ke by (simp add: power_int_def)
  finally have y: "x / 2 powi e = of_int (m * 2 ^ nat (k - e))" .
  have "fl_pos x = of_int (m * 2 ^ nat (k - e)) * 2 powi e"
    by (simp only: fl_pos_def Let_def e_def [symmetric] y round_half_even_of_int)
  also have "\<dots> = x / 2 powi e * 2 powi e" by (simp only: y)
  also have "\<dots> = x" by simp
  finally show ?thesis .
qed

lemma fl_pos_eq_fl: "0 < x \<Longrightarrow> fl x = fl_pos x"
  by (simp add: fl_def)

lemma fl_zero [simp]: "fl 0 = 0"
  by (simp add: fl_def)

lemma fl_bounds:
  assumes "0 \<le> x"
  shows "x - x / 2 ^ 53 \<le> fl x" and "fl x \<le> x + x / 2 ^ 53"
proof -
  have "x - x / 2 ^ 53 \<le> fl x \<and> fl x \<le> x + x / 2 ^ 53"
  proof (cases "x = 0")
    case True
    then show ?thesis by simp
  next
    case False
    then have pos: "0 < x" using assms by simp
    define d where "d = x / 2 ^ 53"
    have "\<bar>fl_pos x - x\<bar> \<le> d"
      unfolding d_def by (rule fl_pos_rel_error [OF pos])
    then have "x - d \<le> fl_pos x \<and> fl_pos x \<le> x + d" by linarith
    then show ?thesis
      unfolding d_def fl_pos_eq_fl [OF pos] .
  qed
  then show "x - x / 2 ^ 53 \<le> fl x" and "fl x \<le> x + x / 2 ^ 53" by simp_all
qed

text \<open>The quotient of an integer between \<open>0\<close> and \<open>100 n\<close> by the length \<open>n\<close> of an
  array rounds, after the division in binary64, to the same integer as the exact
  quotient.\<close>

lemma Math_round_js_div_exact:
  fixes n :: nat and s :: int
  assumes n: "0 < n" "n < 2 ^ 32" and s: "0 \<le> s" "s \<le> 100 * int n"
  shows "Math_round (js_div (of_int s) (of_nat n)) = round_half_up (of_int s / of_nat n)"
proof (cases "s = 0")
  case True
  then show ?thesis by (simp add: js_div_def Math_round_def round_half_up_def)
next
  case False
  define N :: rat where "N = of_nat n"
  define q :: rat where "q = of_int s / N"
  define k :: int where "k = \<lfloor>q + 1 / 2\<rfloor>"
  have Npos: "0 < N" using n(1) by (simp add: N_def)
  have Nle: "N \<le> 2 ^ 32"
  proof -
    have "n \<le> 2 ^ 32" using n(2) by simp
    then have "(of_nat n :: rat) \<le> of_nat (2 ^ 32)" by (simp only: of_nat_le_iff)
    then show ?thesis by (simp add: N_def)
  qed
  have spos: "0 < s" using s(1) False by simp
  have qpos: "0 < q" using spos Npos by (simp add: q_def)
  have qN: "of_int s = q * N" using Npos by (simp add: q_def)
  have q100: "q \<le> 100"
  proof -
    have "(of_int s :: rat) \<le> of_int (100 * int n)" using s(2) by (simp only: of_int_le_iff)
    then have "of_int s \<le> 100 * N" by (simp add: N_def)
    then show ?thesis using Npos by (simp add: q_def pos_divide_le_eq)
  qed
  have k1: "of_int k \<le> q + 1 / 2" and k2: "q + 1 / 2 < of_int k + 1"
    unfolding k_def by linarith+
  have k100: "k \<le> 100" using k1 q100 by linarith
  have err: "\<bar>fl_pos q - q\<bar> \<le> 100 / 2 ^ 53"
  proof -
    have "\<bar>fl_pos q - q\<bar> \<le> q / 2 ^ 53" by (rule fl_pos_rel_error [OF qpos])
    also have "\<dots> \<le> 100 / 2 ^ 53" using q100 by (simp add: divide_right_mono)
    finally show ?thesis .
  qed
  have gap: "(100::rat) / 2 ^ 53 < 1 / (2 * N)"
  proof -
    have "(100::rat) / 2 ^ 53 < 1 / 2 ^ 33" by simp
    also have "\<dots> \<le> 1 / (2 * N)"
      using Npos Nle by (simp add: frac_le)
    finally show ?thesis .
  qed
  have "\<lfloor>fl_pos q + 1 / 2\<rfloor> = k"
  proof (cases "2 * s = (2 * k - 1) * int n")
    case True
    then have "(of_int (2 * s) :: rat) = of_int ((2 * k - 1) * int n)" by simp
    then have "2 * (q * N) = of_int (2 * k - 1) * N" by (simp add: qN N_def)
    then have "(2 * q) * N = of_int (2 * k - 1) * N" by (simp only: mult.assoc)
    then have "2 * q = of_int (2 * k - 1)" using Npos by simp
    then have "q = of_int (2 * k - 1) * 2 powi (- 1)" by (simp add: power_int_minus)
    moreover have "0 < (2 * k - 1) * int n" using True spos by simp
    then have "0 < 2 * k - 1" using n(1) by (simp add: zero_less_mult_iff)
    moreover have "2 * k - 1 < 2 ^ 53" using k100 by simp
    ultimately have "fl_pos q = q" by (intro fl_pos_exact)
    then show ?thesis by (simp add: k_def)
  next
    case False
    have "(2 * k - 1) * int n \<le> 2 * s"
    proof -
      have "(of_int k - 1 / 2) * N \<le> q * N" using k1 Npos by (simp add: mult_right_mono)
      then have "(of_int ((2 * k - 1) * int n) :: rat) \<le> of_int (2 * s)"
        by (simp add: qN N_def algebra_simps)
      then show ?thesis by (simp only: of_int_le_iff)
    qed
    with False have "(2 * k - 1) * int n + 1 \<le> 2 * s" by simp
    then have "(of_int ((2 * k - 1) * int n + 1) :: rat) \<le> of_int (2 * s)"
      by (simp only: of_int_le_iff)
    then have "(2 * of_int k - 1) * N + 1 \<le> 2 * (q * N)" by (simp add: qN N_def)
    then have lo: "of_int k - 1 / 2 + 1 / (2 * N) \<le> q" using Npos by (simp add: field_simps)
    have "2 * s < (2 * k + 1) * int n"
    proof -
      have "q * N < (of_int k + 1 / 2) * N" using k2 Npos by (simp add: mult_strict_right_mono)
      then have "(of_int (2 * s) :: rat) < of_int ((2 * k + 1) * int n)"
        by (simp add: qN N_def algebra_simps)
      then show ?thesis by (simp only: of_int_less_iff)
    qed
    then have "2 * s + 1 \<le> (2 * k + 1) * int n" by simp
    then have "(of_int (2 * s + 1) :: rat) \<le> of_int ((2 * k + 1) * int n)"
      by (simp only: of_int_le_iff)
    then have "2 * (q * N) + 1 \<le> (2 * of_int k + 1) * N" by (simp add: qN N_def)
    then have hi: "q + 1 / (2 * N) \<le> of_int k + 1 / 2" using Npos by (simp add: field_simps)
    have "of_int k \<le> fl_pos q + 1 / 2" "fl_pos q + 1 / 2 < of_int k + 1"
      using lo hi err gap by linarith+
    then show ?thesis by linarith
  qed
  then show ?thesis
    by (simp add: Math_round_def round_half_up_def js_div_def fl_pos_eq_fl [OF qpos]
        q_def [symmetric] N_def [symmetric] k_def)
qed

text \<open>A percentage \<open>Math.round((count / total) * 100)\<close> with \<open>count \<le> total\<close> lies
  between \<open>0\<close> and \<open>100\<close>.\<close>

lemma percentage_range:
  fixes c n :: nat
  assumes "c \<le> n" "0 < n"
  shows "0 \<le> Math_round (js_mul (js_div (of_nat c) (of_nat n)) 100)"
    and "Math_round (js_mul (js_div (of_nat c) (of_nat n)) 100) \<le> 100"
proof -
  define q :: rat where "q = of_nat c / of_nat n"
  define a where "a = fl q"
  define b where "b = fl (a * 100)"
  have q0: "0 \<le> q" by (simp add: q_def)
  have q1: "q \<le> 1" using assms by (simp add: q_def)
  have a0: "0 \<le> a"
  proof -
    have "0 \<le> q - q / 2 ^ 53" using q0 by (simp add: field_simps)
    then show ?thesis using fl_bounds(1) [OF q0] by (simp add: a_def)
  qed
  have a1: "a \<le> 1 + 1 / 2 ^ 53"
  proof -
    have "a \<le> q + q / 2 ^ 53" using fl_bounds(2) [OF q0] by (simp add: a_def)
    also have "\<dots> \<le> 1 + 1 / 2 ^ 53" using q1 by (simp add: add_mono divide_right_mono)
    finally show ?thesis .
  qed
  have p0: "0 \<le> a * 100" using a0 by simp
  have b0: "0 \<le> b"
  proof -
    have "0 \<le> a * 100 - a * 100 / 2 ^ 53" using a0 by (simp add: field_simps)
    then show ?thesis using fl_bounds(1) [OF p0] by (simp add: b_def)
  qed
  have b1: "b < 100 + 1 / 2"
  proof -
    have "b \<le> a * 100 + a * 100 / 2 ^ 53" using fl_bounds(2) [OF p0] by (simp add: b_def)
    also have "\<dots> = a * (100 + 100 / 2 ^ 53)" by (simp add: algebra_simps)
    also have "\<dots> \<le> (1 + 1 / 2 ^ 53) * (100 + 100 / 2 ^ 53)"
      using a1 by (rule mult_right_mono) simp
    also have "\<dots> < 100 + 1 / 2" by simp
    finally show ?thesis .
  qed
  have r: "Math_round (js_mul (js_div (of_nat c) (of_nat n)) 100) = \<lfloor>b + 1 / 2\<rfloor>"
    by (simp add: Math_round_def js_mul_def js_div_def b_def a_def q_def)
  show "0 \<le> Math_round (js_mul (js_div (of_nat c) (of_nat n)) 100)"
    unfolding r using b0 by simp
  have "\<lfloor>b + 1 / 2\<rfloor> < 101"
    unfolding floor_less_iff using b1 by simp
  then show "Math_round (js_mul (js_div (of_nat c) (of_nat n)) 100) \<le> 100"
    unfolding r by simp
qed

text \<open>
  How far \<open>Math.round((c / n) * 100)\<close> is from the rounding of the exact \<open>100 c / n\<close>:
  it is that integer or the one below, and it is that integer unless \<open>100 c / n\<close> lies
  exactly halfway between two integers.
\<close>

lemma percentage_near:
  fixes c n :: nat
  assumes n: "0 < n" "n < 2 ^ 32" and c: "c \<le> n"
  shows "round_half_up (100 * of_nat c / of_nat n) - 1
           \<le> Math_round (js_mul (js_div (of_nat c) (of_nat n)) 100)"
    and "Math_round (js_mul (js_div (of_nat c) (of_nat n)) 100)
           \<le> round_half_up (100 * of_nat c / of_nat n)"
    and "(\<forall>k. 200 * int c \<noteq> (2 * k + 1) * int n)
           \<Longrightarrow> Math_round (js_mul (js_div (of_nat c) (of_nat n)) 100)
                 = round_half_up (100 * of_nat c / of_nat n)"
proof -
  define N :: rat where "N = of_nat n"
  define C :: rat where "C = of_nat c"
  define x :: rat where "x = C / N"
  define q :: rat where "q = 100 * C / N"
  define a where "a = fl x"
  define b where "b = fl (a * 100)"
  define k where "k = round_half_up q"
  define p where "p = Math_round (js_mul (js_div (of_nat c) (of_nat n)) 100)"
  have Npos: "0 < N" using n(1) by (simp add: N_def)
  have Nle: "N \<le> 2 ^ 32"
  proof -
    have "n \<le> 2 ^ 32" using n(2) by simp
    then have "(of_nat n :: rat) \<le> of_nat (2 ^ 32)" by (simp only: of_nat_le_iff)
    then show ?thesis by (simp add: N_def)
  qed
  have gap: "(1::rat) / 2 ^ 44 < 1 / (2 * N)"
  proof -
    have "(1::rat) / 2 ^ 44 < 1 / 2 ^ 33" by simp
    also have "\<dots> \<le> 1 / (2 * N)" using Npos Nle by (simp add: frac_le)
    finally show ?thesis .
  qed
  have x0: "0 \<le> x" using Npos by (simp add: x_def C_def)
  have x1: "x \<le> 1" using c Npos by (simp add: x_def N_def C_def)
  have qx: "q = 100 * x" by (simp add: q_def x_def)
  have qN: "q * N = 100 * C" using Npos by (simp add: q_def)
  have a_lo: "x - x / 2 ^ 53 \<le> a" and a_hi: "a \<le> x + x / 2 ^ 53"
    unfolding a_def by (rule fl_bounds [OF x0])+
  have a0: "0 \<le> a"
  proof -
    have "0 \<le> x - x / 2 ^ 53" using x0 by (simp add: field_simps)
    then show ?thesis using a_lo by linarith
  qed
  have a2: "a \<le> 2"
  proof -
    have "x / 2 ^ 53 \<le> 1" using x1 x0 by (simp add: field_simps)
    then show ?thesis using a_hi x1 by linarith
  qed
  have p0: "0 \<le> a * 100" using a0 by simp
  have b_lo: "a * 100 - a * 100 / 2 ^ 53 \<le> b" and b_hi: "b \<le> a * 100 + a * 100 / 2 ^ 53"
    unfolding b_def by (rule fl_bounds [OF p0])+
  have e1: "a * 100 / 2 ^ 53 \<le> 200 / 2 ^ 53" using a2 by (simp add: divide_right_mono)
  have e2: "100 * (x / 2 ^ 53) \<le> 100 / 2 ^ 53" using x1 by (simp add: divide_right_mono)
  have e3: "(200::rat) / 2 ^ 53 + 100 / 2 ^ 53 < 1 / 2 ^ 44" by simp
  have b_gt: "q - 1 / 2 ^ 44 < b" and b_lt: "b < q + 1 / 2 ^ 44"
    unfolding qx using a_lo a_hi b_lo b_hi e1 e2 e3 by linarith+
  have pb: "p = \<lfloor>b + 1 / 2\<rfloor>"
    by (simp add: p_def Math_round_def js_mul_def js_div_def b_def a_def x_def N_def C_def)
  have k1: "of_int k \<le> q + 1 / 2" and k2: "q + 1 / 2 < of_int k + 1"
    unfolding k_def round_half_up_def by linarith+
  have small: "(1::rat) / 2 ^ 44 < 1" by simp
  have lower: "k - 1 \<le> p"
  proof -
    have "of_int (k - 1) \<le> b + 1 / 2" using k1 b_gt small by simp
    then show ?thesis unfolding pb by (simp only: le_floor_iff)
  qed
  have upper: "p \<le> k"
  proof -
    have "(q + 1 / 2) * N < (of_int k + 1) * N"
      using k2 Npos by (rule mult_strict_right_mono)
    then have "q * N + N / 2 < (of_int k + 1) * N"
      by (simp add: algebra_simps)
    then have "(of_int (200 * int c) :: rat) < of_int ((2 * k + 1) * int n)"
      unfolding qN by (simp add: N_def C_def algebra_simps)
    then have "200 * int c < (2 * k + 1) * int n" by (simp only: of_int_less_iff)
    then have "200 * int c + 1 \<le> (2 * k + 1) * int n" by simp
    then have "(of_int (200 * int c + 1) :: rat) \<le> of_int ((2 * k + 1) * int n)"
      by (simp only: of_int_le_iff)
    then have "2 * (q * N) + 1 \<le> (2 * of_int k + 1) * N"
      unfolding qN by (simp add: N_def C_def)
    then have "q + 1 / (2 * N) \<le> of_int k + 1 / 2" using Npos by (simp add: field_simps)
    then have "b + 1 / 2 < of_int k + 1" using b_lt gap by linarith
    then have "b + 1 / 2 < of_int (k + 1)" by simp
    then have "\<lfloor>b + 1 / 2\<rfloor> < k + 1" by (simp only: floor_less_iff)
    then show ?thesis unfolding pb by simp
  qed
  have exact: "p = k" if odd: "\<forall>j. 200 * int c \<noteq> (2 * j + 1) * int n"
  proof -
    have "of_int k * N \<le> (q + 1 / 2) * N"
      using k1 Npos by (simp add: mult_right_mono)
    then have "of_int k * N \<le> q * N + N / 2"
      by (simp add: algebra_simps)
    then have "(of_int ((2 * (k - 1) + 1) * int n) :: rat) \<le> of_int (200 * int c)"
      unfolding qN by (simp add: N_def C_def algebra_simps)
    then have "(2 * (k - 1) + 1) * int n \<le> 200 * int c" by (simp only: of_int_le_iff)
    moreover have "200 * int c \<noteq> (2 * (k - 1) + 1) * int n" using odd by blast
    ultimately have "(2 * (k - 1) + 1) * int n + 1 \<le> 200 * int c" by simp
    then have "(of_int ((2 * (k - 1) + 1) * int n + 1) :: rat) \<le> of_int (200 * int c)"
      by (simp only: of_int_le_iff)
    then have "(2 * of_int k - 1) * N + 1 \<le> 2 * (q * N)"
      unfolding qN by (simp add: N_def C_def)
    then have "of_int k - 1 / 2 + 1 / (2 * N) \<le> q" using Npos by (simp add: field_simps)
    then have "of_int k \<le> b + 1 / 2" using b_gt gap by linarith
    then have "k \<le> p" unfolding pb by (simp only: le_floor_iff)
    then show ?thesis using upper by simp
  qed
  show "round_half_up (100 * of_nat c / of_nat n) - 1
           \<le> Math_round (js_mul (js_div (of_nat c) (of_nat n)) 100)"
    using lower by (simp add: k_def q_def p_def N_def C_def)
  show "Math_round (js_mul (js_div (of_nat c) (of_nat n)) 100)
           \<le> round_half_up (100 * of_nat c / of_nat n)"
    using upper by (simp add: k_def q_def p_def N_def C_def)
  show "Math_round (js_mul (js_div (of_nat c) (of_nat n)) 100)
                 = round_half_up (100 * of_nat c / of_nat n)"
    if "\<forall>k. 200 * int c \<noteq> (2 * k + 1) * int n"
    using exact [OF that] by (simp add: k_def q_def p_def N_def C_def)
qed

section \<open>Properties of \<open>getReportStats\<close>\<close>

lemma memberPercentage_no_records:
  "filter (\<lambda>a. a_memberId a = m_id member) allAttendance = []
    \<Longrightarrow> memberPercentage allAttendance member = 0"
  by (simp add: memberPercentage_def)

lemma memberPercentage_range:
  "0 \<le> memberPercentage allAttendance member"
  "memberPercentage allAttendance member \<le> 100"
proof -
  define own where "own = filter (\<lambda>a. a_memberId a = m_id member) allAttendance"
  define c where
    "c = length (filter (\<lambda>a. a_status a = ''present'' \<or> a_status a = ''replaced'') own)"
  have c: "c \<le> length own" by (simp add: c_def)
  have eq: "memberPercentage allAttendance member =
      (if length own > 0
       then Math_round (js_mul (js_div (of_nat c) (of_nat (length own))) 100) else 0)"
    by (simp add: memberPercentage_def Let_def own_def c_def)
  show "0 \<le> memberPercentage allAttendance member"
    unfolding eq using percentage_range(1) [OF c] by simp
  show "memberPercentage allAttendance member \<le> 100"
    unfolding eq using percentage_range(2) [OF c] by simp
qed

lemma memberPercentage_near:
  fixes allAttendance :: "Attendance list" and member :: Member
  defines "own \<equiv> filter (\<lambda>a. a_memberId a = m_id member) allAttendance"
  defines "present \<equiv>
    length (filter (\<lambda>a. a_status a = ''present'' \<or> a_status a = ''replaced'') own)"
  assumes "own \<noteq> []" and "length own < 2 ^ 32"
  shows "round_half_up (100 * of_nat present / of_nat (length own)) - 1
           \<le> memberPercentage allAttendance member"
    and "memberPercentage allAttendance member
           \<le> round_half_up (100 * of_nat present / of_nat (length own))"
    and "(\<forall>k. 200 * int present \<noteq> (2 * k + 1) * int (length own))
           \<Longrightarrow> memberPercentage allAttendance member
                 = round_half_up (100 * of_nat present / of_nat (length own))"
proof -
  have n: "0 < length own" using assms(3) by simp
  have c: "present \<le> length own" by (simp add: present_def)
  have eq: "memberPercentage allAttendance member =
      Math_round (js_mul (js_div (of_nat present) (of_nat (length own))) 100)"
    using n by (simp add: memberPercentage_def Let_def own_def present_def)
  show "round_half_up (100 * of_nat present / of_nat (length own)) - 1
           \<le> memberPercentage allAttendance member"
    unfolding eq by (rule percentage_near(1) [OF n assms(4) c])
  show "memberPercentage allAttendance member
           \<le> round_half_up (100 * of_nat present / of_nat (length own))"
    unfolding eq by (rule percentage_near(2) [OF n assms(4) c])
  show "memberPercentage allAttendance member
                 = round_half_up (100 * of_nat present / of_nat (length own))"
    if "\<forall>k. 200 * int present \<noteq> (2 * k + 1) * int (length own)"
    unfolding eq using that by (rule percentage_near(3) [OF n assms(4) c])
qed

lemma mset_js_insert: "mset (js_insert cmp x ys) = add_mset x (mset ys)"
  by (induction ys) simp_all

lemma mset_js_sort: "mset (js_sort cmp xs) = mset xs"
  by (induction xs) (simp_all add: mset_js_insert)

lemma length_js_sort: "length (js_sort cmp xs) = length xs"
  using mset_js_sort [of cmp xs] by (metis size_mset)

lemma set_js_insert: "set (js_insert cmp x ys) = insert x (set ys)"
  using mset_js_insert [of cmp x ys] by (metis set_mset_mset set_mset_add_mset_insert)

lemma descending_js_insert:
  "sorted_wrt (\<lambda>a b. percentage b \<le> percentage a) ys
    \<Longrightarrow> sorted_wrt (\<lambda>a b. percentage b \<le> percentage a) (js_insert byPercentageDesc x ys)"
proof (induction ys)
  case Nil
  then show ?case by simp
next
  case (Cons y ys)
  show ?case
  proof (cases "byPercentageDesc x y \<le> 0")
    case True
    then have "percentage y \<le> percentage x" by (simp add: byPercentageDesc_def)
    moreover have "\<forall>z\<in>set ys. percentage z \<le> percentage y" using Cons.prems by simp
    ultimately have "\<forall>z\<in>set (y # ys). percentage z \<le> percentage x" by auto
    then show ?thesis using True Cons.prems by simp
  next
    case False
    then have "percentage x \<le> percentage y" by (simp add: byPercentageDesc_def)
    then show ?thesis
      using False Cons by (auto simp: set_js_insert)
  qed
qed

lemma descending_js_sort:
  "sorted_wrt (\<lambda>a b. percentage b \<le> percentage a) (js_sort byPercentageDesc xs)"
  by (induction xs) (simp_all add: descending_js_insert)

lemma filter_js_insert:
  "filter (\<lambda>m. percentage m = p) (js_insert byPercentageDesc x ys) =
     (if percentage x = p then x # filter (\<lambda>m. percentage m = p) ys
      else filter (\<lambda>m. percentage m = p) ys)"
  by (induction ys) (auto simp: byPercentageDesc_def)

lemma stable_js_sort:
  "filter (\<lambda>m. percentage m = p) (js_sort byPercentageDesc xs) =
     filter (\<lambda>m. percentage m = p) xs"
  by (induction xs) (simp_all add: filter_js_insert)

lemma js_slice_first3: "js_slice xs 0 (Some 3) = take 3 xs"
  by (simp add: js_slice_def Let_def min_def)

lemma js_slice_last3: "js_slice xs (- 3) None = drop (length xs - 3) xs"
proof -
  have "nat (max (int (length xs) - 3) 0) = length xs - 3" by arith
  then show ?thesis by (simp add: js_slice_def Let_def)
qed

lemma foldl_sum: "foldl (\<lambda>sum m. sum + f m) (a::int) xs = a + sum_list (map f xs)"
  by (induction xs arbitrary: a) (simp_all add: algebra_simps)

lemma sum_js_sort: "sum_list (map f (js_sort cmp xs)) = (sum_list (map f xs) :: int)"
proof -
  have "sum_list (map f (js_sort cmp xs)) = sum_mset (mset (map f (js_sort cmp xs)))"
    by (simp only: sum_mset_sum_list)
  also have "\<dots> = sum_mset (mset (map f xs))"
    by (simp add: mset_js_sort)
  also have "\<dots> = sum_list (map f xs)"
    by (simp only: sum_mset_sum_list)
  finally show ?thesis .
qed

lemma memberStats_percentages:
  "map percentage (memberStats st) =
     map (memberPercentage (tbl_attendance st)) (tbl_members st)"
  by (simp add: memberStats_def o_def)

lemma sum_percentages_range:
  "0 \<le> sum_list (map (memberPercentage att) ms)"
  "sum_list (map (memberPercentage att) ms) \<le> 100 * int (length ms)"
proof (induction ms)
  case Nil
  show "0 \<le> sum_list (map (memberPercentage att) [])"
    and "sum_list (map (memberPercentage att) []) \<le> 100 * int (length [])" by simp_all
next
  case (Cons m ms)
  show "0 \<le> sum_list (map (memberPercentage att) (m # ms))"
    using Cons(1) memberPercentage_range(1) [of att m] by simp
  show "sum_list (map (memberPercentage att) (m # ms)) \<le> 100 * int (length (m # ms))"
    using Cons(2) memberPercentage_range(2) [of att m] by simp
qed

lemma overlap_small:
  assumes "xs \<noteq> []" "length xs \<le> 5"
  shows "xs ! (length xs - 3) \<in> set (take 3 xs) \<inter> set (drop (length xs - 3) xs)"
proof -
  define i where "i = length xs - 3"
  have i: "i < length xs" "i < 3" using assms by (auto simp: i_def)
  have "xs ! i \<in> set (take 3 xs)"
    using i by (metis length_take min_less_iff_conj nth_mem nth_take)
  moreover have "xs ! i \<in> set (drop i xs)"
    using i(1) by (metis Cons_nth_drop_Suc list.set_intros(1))
  ultimately show ?thesis by (simp add: i_def)
qed

text \<open>
  Claim C1. \<open>getReportStats\<close> ranks every member by percentage, descending, members of
  equal percentage staying in the order of enumeration; \<open>topPerformers\<close> is the first
  three entries of the ranking and \<open>lowPerformers\<close> its last three, reversed. Each list
  has \<open>min 3 n\<close> entries for \<open>n\<close> members, and from one to five members some entry is
  in both lists. Members enumerated with the percentages 70, 50, 90, 60 and 80 give
  90, 80, 70 and 50, 60, 70.
\<close>

theorem getReportStats_ranking:
  "(let stats = memberStats st;
        sorted = js_sort byPercentageDesc stats;
        result = getReportStats st
    in mset sorted = mset stats
       \<and> sorted_wrt (\<lambda>a b. percentage b \<le> percentage a) sorted
       \<and> (\<forall>p. filter (\<lambda>m. percentage m = p) sorted = filter (\<lambda>m. percentage m = p) stats)
       \<and> topPerformers result = take 3 sorted
       \<and> lowPerformers result = rev (drop (length sorted - 3) sorted)
       \<and> length (topPerformers result) = min 3 (length (tbl_members st))
       \<and> length (lowPerformers result) = min 3 (length (tbl_members st))
       \<and> (tbl_members st \<noteq> [] \<and> length (tbl_members st) \<le> 5
            \<longrightarrow> set (topPerformers result) \<inter> set (lowPerformers result) \<noteq> {}))
   \<and> map percentage (memberStats store5) = [70, 50, 90, 60, 80]
   \<and> map percentage (topPerformers (getReportStats store5)) = [90, 80, 70]
   \<and> map percentage (lowPerformers (getReportStats store5)) = [50, 60, 70]"
proof -
  define sorted where "sorted = js_sort byPercentageDesc (memberStats st)"
  have len: "length sorted = length (tbl_members st)"
    by (simp add: sorted_def length_js_sort memberStats_def)
  have top: "topPerformers (getReportStats st) = take 3 sorted"
    by (simp add: getReportStats_def Let_def js_slice_first3 sorted_def)
  have low: "lowPerformers (getReportStats st) = rev (drop (length sorted - 3) sorted)"
    by (simp add: getReportStats_def Let_def js_slice_last3 sorted_def)
  have overlap: "set (topPerformers (getReportStats st)) \<inter> set (lowPerformers (getReportStats st)) \<noteq> {}"
    if "tbl_members st \<noteq> []" "length (tbl_members st) \<le> 5"
  proof -
    have "sorted \<noteq> []" "length sorted \<le> 5" using that len by auto
    then show ?thesis using overlap_small [of sorted] unfolding top low by auto
  qed
  have g1: "mset sorted = mset (memberStats st)"
    by (simp add: sorted_def mset_js_sort)
  have g2: "sorted_wrt (\<lambda>a b. percentage b \<le> percentage a) sorted"
    unfolding sorted_def by (rule descending_js_sort)
  have g3: "\<forall>p. filter (\<lambda>m. percentage m = p) sorted
              = filter (\<lambda>m. percentage m = p) (memberStats st)"
    by (simp add: sorted_def stable_js_sort)
  have g4: "length (topPerformers (getReportStats st)) = min 3 (length (tbl_members st))"
    unfolding top by (simp add: len)
  have g5: "length (lowPerformers (getReportStats st)) = min 3 (length (tbl_members st))"
    unfolding low using len by (simp add: min_def)
  have e1: "map percentage (memberStats store5) = [70, 50, 90, 60, 80]" by code_simp
  have e2: "map percentage (topPerformers (getReportStats store5)) = [90, 80, 70]" by code_simp
  have e3: "map percentage (lowPerformers (getReportStats store5)) = [50, 60, 70]" by code_simp
  show ?thesis
    using g1 g2 g3 top low g4 g5 overlap e1 e2 e3 unfolding Let_def sorted_def by blast
qed

theorem getReportStats_ranking_witness:
  "tbl_members store5 \<noteq> [] \<and> length (tbl_members store5) \<le> 5
   \<and> set (topPerformers (getReportStats store5)) \<inter> set (lowPerformers (getReportStats store5)) \<noteq> {}
   \<and> map name (topPerformers (getReportStats store5)) = [''Asha'', ''Bina'', ''Chitra'']
   \<and> map name (lowPerformers (getReportStats store5)) = [''Esha'', ''Dev'', ''Chitra'']"
proof -
  have m: "tbl_members store5 \<noteq> [] \<and> length (tbl_members store5) \<le> 5"
    by (simp add: store5_def)
  have n1: "map name (topPerformers (getReportStats store5)) = [''Asha'', ''Bina'', ''Chitra'']"
    by code_simp
  have n2: "map name (lowPerformers (getReportStats store5)) = [''Esha'', ''Dev'', ''Chitra'']"
    by code_simp
  show ?thesis
    using getReportStats_ranking [of store5] m n1 n2 unfolding Let_def by blast
qed

text \<open>
  Claim C2. The percentage of a member is \<open>Math.round((P / N) * 100)\<close>, computed in
  binary64: the quotient is rounded, then the product. For \<open>N = 40\<close> records of which
  \<open>P = 23\<close> are present the product is \<open>57.49999999999999\<close> and the percentage
  \<open>57\<close>, where \<open>round(100 \<sqdot> 23 / 40) = round(57.5)\<close> is \<open>58\<close>. The percentage
  is \<open>0\<close> for a member without records and lies between \<open>0\<close> and \<open>100\<close>
  (\<open>memberPercentage_no_records\<close>, \<open>memberPercentage_range\<close>); it is
  \<open>round(100 P / N)\<close> or the integer below, the latter only where \<open>100 P / N\<close> is
  halfway between two integers (\<open>memberPercentage_near\<close>).
\<close>

theorem memberPercentage_23_of_40:
  "length (filter (\<lambda>a. a_memberId a = ''m1'') (tbl_attendance store40)) = 40
   \<and> length (filter (\<lambda>a. a_memberId a = ''m1''
                          \<and> (a_status a = ''present'' \<or> a_status a = ''replaced''))
               (tbl_attendance store40)) = 23
   \<and> js_mul (js_div 23 40) 100 = 8092405580431359 / 140737488355328
   \<and> map percentage (memberStats store40) = [57]
   \<and> round_half_up (100 * 23 / 40) = 58"
proof -
  have a: "length (filter (\<lambda>a. a_memberId a = ''m1'') (tbl_attendance store40)) = 40"
    by code_simp
  have b: "length (filter (\<lambda>a. a_memberId a = ''m1''
                          \<and> (a_status a = ''present'' \<or> a_status a = ''replaced''))
               (tbl_attendance store40)) = 23"
    by code_simp
  have c: "js_mul (js_div 23 40) 100 = 8092405580431359 / 140737488355328"
    by code_simp
  have d: "map percentage (memberStats store40) = [57]"
    by code_simp
  have e: "round_half_up (100 * 23 / 40) = 58"
    by code_simp
  show ?thesis using a b c d e by simp
qed

text \<open>
  Claim C5. \<open>averageAttendance\<close> is the mean of the members' percentages, each member
  counting once, rounded half up, and \<open>0\<close> without members. The sum is taken over the
  sorted array and divided in binary64; for an array (fewer than \<open>2\<^sup>3\<^sup>2\<close> elements)
  the rounded quotient is the rounding of the exact mean.
\<close>

theorem averageAttendance_mean:
  assumes "length (tbl_members st) < 2 ^ 32"
  shows "averageAttendance (getReportStats st) =
     (if tbl_members st = [] then 0
      else round_half_up
             (of_int (\<Sum>member\<leftarrow>tbl_members st. memberPercentage (tbl_attendance st) member)
                / of_nat (length (tbl_members st))))"
proof (cases "tbl_members st = []")
  case True
  then show ?thesis by (simp add: getReportStats_def memberStats_def)
next
  case False
  define n where "n = length (tbl_members st)"
  define s where
    "s = (\<Sum>member\<leftarrow>tbl_members st. memberPercentage (tbl_attendance st) member)"
  define sorted where "sorted = js_sort byPercentageDesc (memberStats st)"
  have len: "length sorted = n"
    by (simp add: sorted_def length_js_sort memberStats_def n_def)
  have n: "0 < n" "n < 2 ^ 32" using False assms by (simp_all add: n_def)
  have ne: "sorted \<noteq> []" using len n(1) by auto
  have "foldl (\<lambda>sum m. sum + percentage m) 0 sorted = sum_list (map percentage sorted)"
    by (simp add: foldl_sum)
  also have "\<dots> = sum_list (map percentage (memberStats st))"
    unfolding sorted_def by (rule sum_js_sort)
  also have "\<dots> = s"
    by (simp add: memberStats_percentages s_def)
  finally have sum: "foldl (\<lambda>sum m. sum + percentage m) 0 sorted = s" .
  have s: "0 \<le> s" "s \<le> 100 * int n"
    unfolding s_def n_def by (rule sum_percentages_range)+
  have "averageAttendance (getReportStats st) = Math_round (js_div (of_int s) (of_nat n))"
    using ne by (simp add: getReportStats_def Let_def sorted_def [symmetric] len sum)
  also have "\<dots> = round_half_up (of_int s / of_nat n)"
    by (rule Math_round_js_div_exact [OF n s])
  finally show ?thesis using False by (simp add: s_def n_def)
qed

theorem averageAttendance_mean_witness:
  "length (tbl_members store5) < 2 ^ 32
   \<and> averageAttendance (getReportStats store5) = 70
   \<and> round_half_up
        (of_int (\<Sum>member\<leftarrow>tbl_members store5. memberPercentage (tbl_attendance store5) member)
           / of_nat (length (tbl_members store5))) = 70"
proof -
  have l: "length (tbl_members store5) < 2 ^ 32" by (simp add: store5_def)
  have ne: "tbl_members store5 \<noteq> []" by (simp add: store5_def)
  have a: "averageAttendance (getReportStats store5) = 70" by code_simp
  show ?thesis
    using averageAttendance_mean [OF l] l ne a by simp
qed

section \<open>The attendance filter\<close>

lemma keepRecord_iff:
  "keepRecord env f record \<longleftrightarrow>
     \<not> (truthy (dateFrom f)
          \<and> date_lt (new_Date env (Some (a_date record))) (new_Date env (dateFrom f)))
     \<and> \<not> (truthy (dateTo f)
            \<and> date_lt (new_Date env (dateTo f)) (new_Date env (Some (a_date record))))
     \<and> (statusFilter f = Some ''all'' \<or> statusFilter f = Some (a_status record))
     \<and> (storyFilter f = Some ''all''
          \<or> (a_storyId record \<noteq> None \<and> storyFilter f = a_storyId record))
     \<and> (memberFilter f = Some ''all'' \<or> memberFilter f = Some (a_memberId record))"
  by (auto simp: keepRecord_def strict_neq_def split: option.splits)

text \<open>
  Claim C3. The filter of \<open>POST /api/reports/export\<close> reads five of the six options:
  \<open>eventFilter\<close> is never read, so it constrains no record, and a record of event
  \<open>Holi\<close> passes the filter \<open>eventFilter = "JJ"\<close>. An absent \<open>statusFilter\<close> is
  \<open>!== 'all'\<close> and differs from every status, so it rejects every record.
\<close>

theorem keepRecord_eventFilter_unread:
  "(\<forall>env f v record. keepRecord env (f\<lparr>eventFilter := v\<rparr>) record = keepRecord env f record)
   \<and> (\<forall>env f record. \<not> keepRecord env (f\<lparr>statusFilter := None\<rparr>) record)
   \<and> a_eventType recordHoli = Some ''Holi''
   \<and> keepRecord env0 (allFilters\<lparr>eventFilter := Some ''JJ''\<rparr>) recordHoli
   \<and> filterAttendance env0 (Some (allFilters\<lparr>eventFilter := Some ''JJ''\<rparr>))
         (getAllAttendance store0) = [recordJJ, recordHoli, recordDangling]
   \<and> filterAttendance env0 (Some (allFilters\<lparr>statusFilter := None\<rparr>))
         (getAllAttendance store0) = []"
proof -
  have a: "\<forall>env f v record. keepRecord env (f\<lparr>eventFilter := v\<rparr>) record = keepRecord env f record"
    by (simp add: keepRecord_def)
  have b: "\<forall>env f record. \<not> keepRecord env (f\<lparr>statusFilter := None\<rparr>) record"
    by (simp add: keepRecord_def strict_neq_def)
  have c: "a_eventType recordHoli = Some ''Holi''"
    by (simp add: recordHoli_def)
  have d: "keepRecord env0 (allFilters\<lparr>eventFilter := Some ''JJ''\<rparr>) recordHoli"
    by code_simp
  have e: "filterAttendance env0 (Some (allFilters\<lparr>eventFilter := Some ''JJ''\<rparr>))
         (getAllAttendance store0) = [recordJJ, recordHoli, recordDangling]"
    by code_simp
  have f: "filterAttendance env0 (Some (allFilters\<lparr>statusFilter := None\<rparr>))
         (getAllAttendance store0) = []"
    by code_simp
  show ?thesis using a b c d e f by blast
qed

section \<open>The spreadsheet of the attendance export\<close>

text \<open>
  Claim C4. The sheet has a header and one row for each filtered record, so the row
  count is reproduced. The cells \<open>Role\<close> and \<open>Replaced By\<close> are read from
  \<open>record.role\<close> and \<open>record.replacedBy\<close>, which no attendance row has: both cells are
  empty in every row, and two inputs that differ in \<open>roleId\<close> and
  \<open>replacedMemberId\<close> give the same sheet. The record of \<open>store0\<close> with role \<open>AV\<close>
  that replaced \<open>Asha\<close> is exported with neither.
\<close>

theorem ws_data_drops_role_and_replacedBy:
  "(\<forall>env members stories filtered.
      length (ws_data env members stories filtered) = length filtered + 1)
   \<and> (\<forall>env members stories record.
        excelRow env members stories record ! 3 = []
        \<and> excelRow env members stories record ! 5 = [])
   \<and> (\<forall>env members stories record x y.
        excelRow env members stories (record\<lparr>a_roleId := x, a_replacedMemberId := y\<rparr>)
          = excelRow env members stories record)
   \<and> a_roleId recordHoli = Some ''r1''
   \<and> map r_name (filter (\<lambda>r. r_id r = ''r1'') (tbl_roles store0)) = [''AV'']
   \<and> a_replacedMemberId recordHoli = Some ''m1''
   \<and> excelRow env0 (getMembers store0) (getStories store0) recordHoli
        = [''2024-01-09'', ''Bina'', [], [], ''replaced'', []]"
proof -
  have a: "\<forall>env members stories filtered.
      length (ws_data env members stories filtered) = length filtered + 1"
    by (simp add: ws_data_def)
  have b: "\<forall>env members stories record.
        excelRow env members stories record ! 3 = []
        \<and> excelRow env members stories record ! 5 = []"
    by (simp add: excelRow_def record_role_def record_replacedBy_def js_or_def)
  have c: "\<forall>env members stories record x y.
        excelRow env members stories (record\<lparr>a_roleId := x, a_replacedMemberId := y\<rparr>)
          = excelRow env members stories record"
    by (simp add: excelRow_def record_role_def record_replacedBy_def memberOf_def storyOf_def)
  have d: "a_roleId recordHoli = Some ''r1''" "a_replacedMemberId recordHoli = Some ''m1''"
    by (simp_all add: recordHoli_def)
  have e: "map r_name (filter (\<lambda>r. r_id r = ''r1'') (tbl_roles store0)) = [''AV'']"
    by code_simp
  have f: "excelRow env0 (getMembers store0) (getStories store0) recordHoli
        = [''2024-01-09'', ''Bina'', [], [], ''replaced'', []]"
    by code_simp
  show ?thesis using a b c d e f by blast
qed

section \<open>The poll tally\<close>

text \<open>
  Claim C6. The poll export never reads the responses: \<open>storage.db\<close> is undefined, so
  the tally runs over the empty array. For the poll with options \<open>A\<close> and \<open>B\<close>, three
  stored responses for option 0 and one for option 1, the image shows 0 responses, 0
  votes and 0 percent for both options. The loop of the tally, given the stored
  responses, would count 3 and 1 and show 75 and 25; given 23 of 40 responses it shows
  57 percent, with the rounding of \<open>memberPercentage\<close>.
\<close>

theorem exportPoll_tally_of_no_responses:
  "(\<forall>st pollId. pollResponsesOf st pollId = [])
   \<and> map pr_selectedOption (filter (\<lambda>r. pr_pollId r = ''p1'') (tbl_pollResponses store0))
        = [0, 1, 0, 0]
   \<and> exportPoll env0 store0 ''u-m1'' \<lparr>pq_pollId = Some ''p1'', pq_format = Some ''image''\<rparr>
        = Sent ''image/jpeg'' ''poll-results.jpg''
            (PollCanvas
              \<lparr>imageQuestion = ''Next show?'', imageTotal = 0,
               bars = [(220, \<lparr>optionLabel = ''A'', votes = 0, percent = 0, barWidth = 0\<rparr>),
                       (255, \<lparr>optionLabel = ''B'', votes = 0, percent = 0, barWidth = 0\<rparr>)]\<rparr>)
   \<and> map (\<lambda>(y, b). (votes b, percent b)) (pollBars pollAB responsesAB) = [(3, 75), (1, 25)]
   \<and> map (\<lambda>(y, b). (votes b, percent b)) (pollBars pollAB responses40) = [(23, 57), (17, 43)]
   \<and> round_half_up (100 * 23 / 40) = 58"
proof -
  have a: "\<forall>st pollId. pollResponsesOf st pollId = []"
    by (simp add: pollResponsesOf_def storage_db_findMany_def)
  have b: "map pr_selectedOption (filter (\<lambda>r. pr_pollId r = ''p1'') (tbl_pollResponses store0))
        = [0, 1, 0, 0]"
    by code_simp
  have u: "getMemberByUserId store0 ''u-m1'' = Some (mkMember ''m1'' ''Asha'' True)"
    by (simp add: getMemberByUserId_def store0_def mkMember_def)
  have p: "find (\<lambda>p. p_id p = ''p1'') (getPolls store0) = Some pollAB"
    by (simp add: getPolls_def orderByDesc_def store0_def pollAB_def)
  have z: "pollBars pollAB [] =
      [(220, \<lparr>optionLabel = ''A'', votes = 0, percent = 0, barWidth = 0\<rparr>),
       (255, \<lparr>optionLabel = ''B'', votes = 0, percent = 0, barWidth = 0\<rparr>)]"
    by (simp add: pollBars_def pollAB_def js_mul_def js_div_def)
  have c: "exportPoll env0 store0 ''u-m1'' \<lparr>pq_pollId = Some ''p1'', pq_format = Some ''image''\<rparr>
        = Sent ''image/jpeg'' ''poll-results.jpg''
            (PollCanvas
              \<lparr>imageQuestion = ''Next show?'', imageTotal = 0,
               bars = [(220, \<lparr>optionLabel = ''A'', votes = 0, percent = 0, barWidth = 0\<rparr>),
                       (255, \<lparr>optionLabel = ''B'', votes = 0, percent = 0, barWidth = 0\<rparr>)]\<rparr>)"
    by (simp add: exportPoll_def u p isAdmin_def mkMember_def pollResponsesOf_def
        storage_db_findMany_def z) (simp add: pollAB_def)
  have t4: "Math_round (js_mul (js_div 3 4) 100) = 75" "Math_round (js_mul (js_div 1 4) 100) = 25"
    by code_simp+
  have t40: "Math_round (js_mul (js_div 23 40) 100) = 57"
    "Math_round (js_mul (js_div 17 40) 100) = 43"
    by code_simp+
  have d: "map (\<lambda>(y, b). (votes b, percent b)) (pollBars pollAB responsesAB) = [(3, 75), (1, 25)]"
    by (simp add: pollBars_def pollAB_def responsesAB_def mkResponse_def Let_def t4)
  have e: "map (\<lambda>(y, b). (votes b, percent b)) (pollBars pollAB responses40) = [(23, 57), (17, 43)]"
    by (simp add: pollBars_def pollAB_def responses40_def mkResponse_def Let_def t40)
  have f: "round_half_up (100 * 23 / 40) = 58"
    by code_simp
  show ?thesis using a b c d e f by blast
qed

section \<open>The relation joiner\<close>

lemma length_orderByDesc [simp]: "length (orderByDesc col rows) = length rows"
  by (simp add: orderByDesc_def)

lemma set_orderByDesc [simp]: "set (orderByDesc col rows) = set rows"
  by (simp add: orderByDesc_def)

lemma set_orderBy [simp]: "set (orderBy col rows) = set rows"
  by (simp add: orderBy_def)


text \<open>
  Claim C7. \<open>getAttendanceWithDetails\<close> returns one joined record for each attendance
  record, in the order of the query. It is a total function with no error result: a
  foreign key (\<open>memberId\<close>, \<open>storyId\<close>, \<open>roleId\<close>, \<open>replacedMemberId\<close>) that matches no
  row of its table leaves that relation absent in the joined record. The table of the
  admin page then shows \<open>Unknown\<close> for an absent member and \<open>-\<close> for an absent story,
  role or replaced member.
\<close>

theorem getAttendanceWithDetails_dangling:
  "map d_record (getAttendanceWithDetails st) = orderByDesc a_date (tbl_attendance st)
   \<and> (\<forall>j\<in>set (getAttendanceWithDetails st).
        ((\<forall>m\<in>set (tbl_members st). m_id m \<noteq> a_memberId (d_record j))
           \<longrightarrow> d_member j = None \<and> relationCells j ! 0 = ''Unknown'')
        \<and> ((\<forall>s\<in>set (tbl_stories st). Some (s_id s) \<noteq> a_storyId (d_record j))
              \<longrightarrow> d_story j = None \<and> relationCells j ! 1 = ''-'')
        \<and> ((\<forall>r\<in>set (tbl_roles st). Some (r_id r) \<noteq> a_roleId (d_record j))
              \<longrightarrow> d_role j = None \<and> relationCells j ! 2 = ''-'')
        \<and> ((\<forall>m\<in>set (tbl_members st). Some (m_id m) \<noteq> a_replacedMemberId (d_record j))
              \<longrightarrow> d_replacedMember j = None
                  \<and> (a_status (d_record j) = ''replaced'' \<longrightarrow> relationCells j ! 3 = ''-'')))"
proof -
  have a: "map d_record (getAttendanceWithDetails st) = orderByDesc a_date (tbl_attendance st)"
    by (simp add: getAttendanceWithDetails_def Let_def o_def)
  have b: "\<forall>j\<in>set (getAttendanceWithDetails st).
        ((\<forall>m\<in>set (tbl_members st). m_id m \<noteq> a_memberId (d_record j)) \<longrightarrow> d_member j = None)
        \<and> ((\<forall>s\<in>set (tbl_stories st). Some (s_id s) \<noteq> a_storyId (d_record j))
              \<longrightarrow> d_story j = None)
        \<and> ((\<forall>r\<in>set (tbl_roles st). Some (r_id r) \<noteq> a_roleId (d_record j))
              \<longrightarrow> d_role j = None)
        \<and> ((\<forall>m\<in>set (tbl_members st). Some (m_id m) \<noteq> a_replacedMemberId (d_record j))
              \<longrightarrow> d_replacedMember j = None)"
    by (auto simp: getAttendanceWithDetails_def Let_def find_None_iff)
  have c: "d_member j = None \<longrightarrow> relationCells j ! 0 = ''Unknown''"
    "d_story j = None \<longrightarrow> relationCells j ! 1 = ''-''"
    "d_role j = None \<longrightarrow> relationCells j ! 2 = ''-''"
    "d_replacedMember j = None \<and> a_status (d_record j) = ''replaced''
       \<longrightarrow> relationCells j ! 3 = ''-''" for j
    by (simp_all add: relationCells_def js_or_def)
  show ?thesis using a b c by blast
qed

theorem getAttendanceWithDetails_dangling_witness:
  "map m_id (tbl_members store0) = [''m1'', ''m2'']
   \<and> map s_id (tbl_stories store0) = [''s1'', ''s2'']
   \<and> map r_id (tbl_roles store0) = [''r1'']
   \<and> a_memberId recordDangling = ''m9''
   \<and> a_storyId recordDangling = Some ''s9''
   \<and> a_roleId recordDangling = Some ''r9''
   \<and> a_replacedMemberId recordDangling = Some ''m8''
   \<and> a_status recordDangling = ''replaced''
   \<and> getAttendanceWithDetails store0 ! 2
        = \<lparr>d_record = recordDangling, d_member = None, d_story = None, d_role = None,
           d_replacedMember = None\<rparr>
   \<and> relationCells (getAttendanceWithDetails store0 ! 2) = [''Unknown'', ''-'', ''-'', ''-'']
   \<and> map d_record (getAttendanceWithDetails store0) = [recordJJ, recordHoli, recordDangling]"
proof -
  have t: "map m_id (tbl_members store0) = [''m1'', ''m2'']"
    "map s_id (tbl_stories store0) = [''s1'', ''s2'']"
    "map r_id (tbl_roles store0) = [''r1'']"
    by (simp_all add: store0_def mkMember_def)
  have k: "a_memberId recordDangling = ''m9''" "a_storyId recordDangling = Some ''s9''"
    "a_roleId recordDangling = Some ''r9''" "a_replacedMemberId recordDangling = Some ''m8''"
    "a_status recordDangling = ''replaced''"
    by (simp_all add: recordDangling_def)
  have h: "(\<forall>m\<in>set (tbl_members store0). m_id m \<noteq> a_memberId recordDangling)
   \<and> (\<forall>s\<in>set (tbl_stories store0). Some (s_id s) \<noteq> a_storyId recordDangling)
   \<and> (\<forall>r\<in>set (tbl_roles store0). Some (r_id r) \<noteq> a_roleId recordDangling)
   \<and> (\<forall>m\<in>set (tbl_members store0). Some (m_id m) \<noteq> a_replacedMemberId recordDangling)"
    by (simp add: store0_def recordDangling_def mkMember_def)
  have o: "orderByDesc a_date (tbl_attendance store0) = [recordJJ, recordHoli, recordDangling]"
    by code_simp
  define j where "j = getAttendanceWithDetails store0 ! 2"
  have len: "length (getAttendanceWithDetails store0) = 3"
    using getAttendanceWithDetails_dangling [of store0] o
    by (metis length_map length_Cons list.size(3) numeral_3_eq_3)
  have jin: "j \<in> set (getAttendanceWithDetails store0)"
    unfolding j_def using len by simp
  have rec: "d_record j = recordDangling"
  proof -
    have "map d_record (getAttendanceWithDetails store0) ! 2 = recordDangling"
      using getAttendanceWithDetails_dangling [of store0] o by simp
    then show ?thesis unfolding j_def using len by simp
  qed
  have n: "d_member j = None \<and> d_story j = None \<and> d_role j = None \<and> d_replacedMember j = None"
    using getAttendanceWithDetails_dangling [of store0] jin h unfolding rec [symmetric] by blast
  then have j: "j = \<lparr>d_record = recordDangling, d_member = None, d_story = None, d_role = None,
           d_replacedMember = None\<rparr>"
    using rec by (cases j) simp
  have cells: "relationCells j = [''Unknown'', ''-'', ''-'', ''-'']"
    by (simp add: j relationCells_def js_or_def recordDangling_def)
  show ?thesis
    using t k o j cells getAttendanceWithDetails_dangling [of store0] unfolding j_def by simp
qed

section \<open>The export handlers\<close>

lemma find_getPolls_None:
  "\<forall>p\<in>set (tbl_polls st). Some (p_id p) \<noteq> pid
    \<Longrightarrow> find (\<lambda>p. Some (p_id p) = pid) (getPolls st) = None"
  by (simp add: find_None_iff getPolls_def)

lemma exportPoll_cases:
  "exportPoll env st userId req =
     (if \<not> isAdmin (getMemberByUserId st userId) then Json 403 ''Forbidden''
      else case find (\<lambda>p. Some (p_id p) = pq_pollId req) (getPolls st) of
             None \<Rightarrow> Json 404 ''Poll not found''
           | Some poll \<Rightarrow>
               if pq_format req = Some ''excel''
               then Sent ''application/vnd.openxmlformats-officedocument.spreadsheetml.sheet''
                      ''poll-results.xlsx''
                      (KeyedSheet (pollSheet env poll (getMembers st)
                                     (pollResponsesOf st (pq_pollId req))))
               else if pq_format req = Some ''pdf''
               then Sent ''application/pdf'' ''poll-results.pdf''
                      (Document (pollPdfLines poll (getMembers st) 150
                                   (js_slice (pollResponsesOf st (pq_pollId req)) 0 (Some 100))))
               else if pq_format req = Some ''image''
               then Sent ''image/jpeg'' ''poll-results.jpg''
                      (PollCanvas \<lparr>imageQuestion = p_question poll,
                                   imageTotal = length (pollResponsesOf st (pq_pollId req)),
                                   bars = pollBars poll (pollResponsesOf st (pq_pollId req))\<rparr>)
               else NoResponse)"
  by (simp add: exportPoll_def Let_def split: option.split)

lemma exportReports_cases:
  "exportReports env st userId req =
     (if \<not> isAdmin (getMemberByUserId st userId) then Json 403 ''Forbidden''
      else if rq_format req = Some ''excel''
      then Sent ''application/vnd.openxmlformats-officedocument.spreadsheetml.sheet''
             ''attendance-report.xlsx''
             (Sheet (ws_data env (getMembers st) (getStories st)
                       (filterAttendance env (rq_filters req) (getAllAttendance st))))
      else if rq_format req = Some ''pdf''
      then Sent ''application/pdf'' ''attendance-report.pdf''
             (Document (pdfOps env (getMembers st) (getStories st)
                          (filterAttendance env (rq_filters req) (getAllAttendance st))))
      else if rq_format req = Some ''image''
      then Sent ''image/jpeg'' ''attendance-report.jpg''
             (AttendanceCanvas (attendanceCanvas env (getMembers st) (getStories st)
                                  (filterAttendance env (rq_filters req) (getAllAttendance st))))
      else NoResponse)"
  by (simp add: exportReports_def Let_def)

lemma admin_store0: "isAdmin (getMemberByUserId store0 ''u-m1'')"
  by (simp add: isAdmin_def getMemberByUserId_def store0_def mkMember_def)

lemma member_store0: "\<not> isAdmin (getMemberByUserId store0 ''u-m2'')"
  by (simp add: isAdmin_def getMemberByUserId_def store0_def mkMember_def)

text \<open>
  Claim C8, as stated: a poll export whose \<open>pollId\<close> matches no poll is answered with
  the not-found condition. The handler checks the requester first: a member who is not
  an admin and names no existing poll is answered \<open>403 Forbidden\<close>.
\<close>

theorem exportPoll_not_found_counterexample:
  "map p_id (tbl_polls store0) = [''p1'']
   \<and> exportPoll env0 store0 ''u-m2'' \<lparr>pq_pollId = Some ''p7'', pq_format = Some ''pdf''\<rparr>
        = Json 403 ''Forbidden''
   \<and> exportPoll env0 store0 ''u-m2'' \<lparr>pq_pollId = Some ''p7'', pq_format = Some ''pdf''\<rparr>
        \<noteq> Json 404 ''Poll not found''"
proof -
  have "map p_id (tbl_polls store0) = [''p1'']"
    by (simp add: store0_def pollAB_def)
  moreover have "exportPoll env0 store0 ''u-m2'' \<lparr>pq_pollId = Some ''p7'', pq_format = Some ''pdf''\<rparr>
        = Json 403 ''Forbidden''"
    by (simp add: exportPoll_cases member_store0)
  ultimately show ?thesis by simp
qed

text \<open>
  Claim C8, amended. For a poll export by an admin whose \<open>pollId\<close> matches no poll the
  handler answers \<open>404 Poll not found\<close>; a requester who is not an admin is answered
  \<open>403 Forbidden\<close>. In both cases no export is rendered.
\<close>

theorem exportPoll_not_found:
  assumes "\<forall>p\<in>set (tbl_polls st). Some (p_id p) \<noteq> pq_pollId req"
  shows "exportPoll env st userId req =
           (if isAdmin (getMemberByUserId st userId)
            then Json 404 ''Poll not found'' else Json 403 ''Forbidden'')
         \<and> (\<forall>contentType file b. exportPoll env st userId req \<noteq> Sent contentType file b)"
  using find_getPolls_None [OF assms] by (simp add: exportPoll_cases)

theorem exportPoll_not_found_witness:
  "map p_id (tbl_polls store0) = [''p1'']
   \<and> isAdmin (getMemberByUserId store0 ''u-m1'')
   \<and> exportPoll env0 store0 ''u-m1'' \<lparr>pq_pollId = Some ''p7'', pq_format = Some ''pdf''\<rparr>
        = Json 404 ''Poll not found''"
proof -
  have t: "map p_id (tbl_polls store0) = [''p1'']"
    by (simp add: store0_def pollAB_def)
  have h: "\<forall>p\<in>set (tbl_polls store0).
      Some (p_id p) \<noteq> pq_pollId \<lparr>pq_pollId = Some ''p7'', pq_format = Some ''pdf''\<rparr>"
    by (simp add: store0_def pollAB_def)
  show ?thesis
    using exportPoll_not_found [OF h, of env0 "''u-m1''"] t admin_store0 by simp
qed

text \<open>
  Claim C9, as stated: an export request with an unrecognised \<open>format\<close> produces no
  response body. A requester who is not an admin is answered with the body of
  \<open>403 Forbidden\<close>, whatever the format, and an admin's poll export that names no
  existing poll with the body of \<open>404 Poll not found\<close>.
\<close>

theorem exportReports_unknown_format_counterexample:
  "Some ''csv'' \<notin> {Some ''excel'', Some ''pdf'', Some ''image''}
   \<and> exportReports env0 store0 ''u-m2'' \<lparr>rq_format = Some ''csv'', rq_filters = None\<rparr>
        = Json 403 ''Forbidden''
   \<and> exportReports env0 store0 ''u-m2'' \<lparr>rq_format = Some ''csv'', rq_filters = None\<rparr>
        \<noteq> NoResponse
   \<and> exportPoll env0 store0 ''u-m1'' \<lparr>pq_pollId = Some ''p7'', pq_format = Some ''csv''\<rparr>
        = Json 404 ''Poll not found''
   \<and> exportPoll env0 store0 ''u-m1'' \<lparr>pq_pollId = Some ''p7'', pq_format = Some ''csv''\<rparr>
        \<noteq> NoResponse"
proof -
  have "find (\<lambda>p. p_id p = ''p7'') (getPolls store0) = None"
    by (simp add: getPolls_def orderByDesc_def store0_def pollAB_def)
  then show ?thesis
    by (simp add: exportReports_cases exportPoll_cases member_store0 admin_store0)
qed

text \<open>
  Claim C9, amended. For a \<open>format\<close> other than \<open>excel\<close>, \<open>pdf\<close> and \<open>image\<close> no
  rendering branch of either handler runs. The attendance export then writes nothing
  for an admin and answers \<open>403\<close> otherwise; the poll export writes nothing for an admin
  naming an existing poll, and answers \<open>403\<close> to another requester and \<open>404\<close> for a
  poll that does not exist.
\<close>

theorem export_unknown_format:
  assumes "fmt \<notin> {Some ''excel'', Some ''pdf'', Some ''image''}"
  shows "exportReports env st userId \<lparr>rq_format = fmt, rq_filters = fs\<rparr> =
           (if isAdmin (getMemberByUserId st userId) then NoResponse
            else Json 403 ''Forbidden'')
         \<and> exportPoll env st userId \<lparr>pq_pollId = pid, pq_format = fmt\<rparr> =
           (if \<not> isAdmin (getMemberByUserId st userId) then Json 403 ''Forbidden''
            else if find (\<lambda>p. Some (p_id p) = pid) (getPolls st) = None
            then Json 404 ''Poll not found''
            else NoResponse)
         \<and> (\<forall>contentType file b.
               exportReports env st userId \<lparr>rq_format = fmt, rq_filters = fs\<rparr>
                 \<noteq> Sent contentType file b
               \<and> exportPoll env st userId \<lparr>pq_pollId = pid, pq_format = fmt\<rparr>
                 \<noteq> Sent contentType file b)"
  using assms by (auto simp: exportReports_cases exportPoll_cases split: option.splits)

theorem export_unknown_format_witness:
  "Some ''csv'' \<notin> {Some ''excel'', Some ''pdf'', Some ''image''}
   \<and> isAdmin (getMemberByUserId store0 ''u-m1'')
   \<and> map p_id (getPolls store0) = [''p1'']
   \<and> exportReports env0 store0 ''u-m1'' \<lparr>rq_format = Some ''csv'', rq_filters = None\<rparr>
        = NoResponse
   \<and> exportPoll env0 store0 ''u-m1'' \<lparr>pq_pollId = Some ''p1'', pq_format = Some ''csv''\<rparr>
        = NoResponse"
proof -
  have h: "Some ''csv'' \<notin> {Some ''excel'', Some ''pdf'', Some ''image''}" by simp
  have p: "find (\<lambda>p. Some (p_id p) = Some ''p1'') (getPolls store0) \<noteq> None"
    by (simp add: getPolls_def orderByDesc_def store0_def pollAB_def)
  have t: "map p_id (getPolls store0) = [''p1'']"
    by (simp add: getPolls_def orderByDesc_def store0_def pollAB_def)
  show ?thesis
    using export_unknown_format [OF h, of env0 store0 "''u-m1''" None "Some ''p1''"]
      h p t admin_store0
    by simp
qed

section \<open>Stories in the attendance export\<close>

lemma getStories_active:
  "set (getStories st) = {s \<in> set (tbl_stories st). s_isActive s = Some True}"
  by (simp add: getStories_def)

lemma storyOf_inactive:
  assumes "\<forall>s\<in>set (tbl_stories st). s_id s = sid \<longrightarrow> s_isActive s \<noteq> Some True"
    and "a_storyId record = Some sid"
  shows "storyOf (getStories st) record = None"
  using assms by (auto simp: storyOf_def find_None_iff getStories_active)

lemma getStory_found:
  assumes "\<exists>s\<in>set (tbl_stories st). s_id s = sid"
  shows "getStory st sid \<noteq> None"
proof -
  have "filter (\<lambda>s. s_id s = sid) (tbl_stories st) \<noteq> []"
    using assms by (simp add: filter_empty_conv)
  then show ?thesis
    by (simp add: getStory_def split: list.split)
qed

text \<open>\<open>deleteStory\<close> leaves the row in the table, inactive.\<close>

lemma deleteStory_inactive:
  assumes "s \<in> set (tbl_stories (deleteStory st sid))" and "s_id s = sid"
  shows "s_isActive s = Some False"
proof -
  define f :: "Story \<Rightarrow> Story"
    where "f = (\<lambda>s. if s_id s = sid then s\<lparr>s_isActive := Some False\<rparr> else s)"
  have "tbl_stories (deleteStory st sid) = map f (tbl_stories st)"
    by (simp add: deleteStory_def f_def)
  then have "s \<in> f ` set (tbl_stories st)"
    using assms(1) by (simp only: set_map)
  then obtain s0 where s0: "s = f s0" by (rule imageE)
  show ?thesis
  proof (cases "s_id s0 = sid")
    case True
    then show ?thesis by (simp add: s0 f_def)
  next
    case False
    then have "s = s0" by (simp add: s0 f_def)
    then show ?thesis using False assms(2) by simp
  qed
qed

lemma js_slice_first100: "js_slice xs 0 (Some 100) = take 100 xs"
  by (simp add: js_slice_def Let_def min_def)

lemma textsOf_append: "textsOf (xs @ ys) = textsOf xs @ textsOf ys"
  by (induction xs rule: textsOf.induct) simp_all

lemma textsOf_pages:
  "textsOf (concat (map (\<lambda>(idx, record).
                (if idx mod 10 = 0 \<and> idx > 0 then [AddPage] else []) @ [Text (f record)])
             (enumerate n xs))) = map f xs"
  by (induction xs arbitrary: n) (simp_all add: textsOf_append)

lemma textsOf_pdfOps:
  "textsOf (pdfOps env members stories filtered) =
     map (pdfLine env members stories) (take 100 filtered)"
  by (simp add: pdfOps_def js_slice_first100 textsOf_pages)

lemma imageRows_take:
  "map snd (imageRows env members stories y records) =
     map (imageCells env members stories)
       (take (if y > 1500 then 0 else nat ((1500 - y) div 25) + 1) records)"
proof (induction records arbitrary: y)
  case Nil
  show ?case by simp
next
  case (Cons r rest)
  show ?case
  proof (cases "y > 1500")
    case True
    then show ?thesis using Cons [of y] by simp
  next
    case False
    have "(if y + 25 > 1500 then 0 else nat ((1500 - (y + 25)) div 25) + 1)
            = nat ((1500 - y) div 25)"
    proof (cases "y + 25 > 1500")
      case True
      then have "(1500 - y) div 25 = 0" using False by simp
      then show ?thesis using True by simp
    next
      case False
      have "(1500 - y) div 25 = (1500 - (y + 25)) div 25 + 1" by simp
      moreover have "0 \<le> (1500 - (y + 25)) div 25" using False by simp
      ultimately show ?thesis using False by (simp add: nat_add_distrib)
    qed
    then show ?thesis using False Cons [of "y + 25"] by simp
  qed
qed

lemma tableRows_attendanceCanvas:
  "map snd (tableRows (attendanceCanvas env members stories filtered)) =
     map (imageCells env members stories) (take 49 filtered)"
  by (simp add: attendanceCanvas_def imageRows_take)

text \<open>
  Claim C10. The attendance export joins each record with \<open>getStories\<close>, the active
  stories. For a story that is not active, no active story having its id, a record that
  references it finds no story although \<open>getStory\<close> still returns the row: the sheet
  has the empty string in the \<open>Story\<close> column, the document \<open>Unknown\<close> and the image
  \<open>-\<close>. For an admin the sheet is the header followed by one such row for each filtered
  record, the document has one such line for each of the first 100 and the image one
  such row for each of the first 49.
\<close>

theorem export_story_inactive:
  assumes "\<forall>s\<in>set (tbl_stories st). s_id s = sid \<longrightarrow> s_isActive s \<noteq> Some True"
    and "\<exists>s\<in>set (tbl_stories st). s_id s = sid"
    and "a_storyId record = Some sid"
    and "isAdmin (getMemberByUserId st userId)"
  shows "getStory st sid \<noteq> None
     \<and> storyOf (getStories st) record = None
     \<and> excelRow env (getMembers st) (getStories st) record ! 2 = []
     \<and> pdfLine env (getMembers st) (getStories st) record =
         toLocaleDateString env (a_date record) @ '' - ''
           @ js_or (map_option m_name (memberOf (getMembers st) record)) ''Unknown''
           @ '' - Unknown - '' @ toUpperCase env (a_status record)
     \<and> imageCells env (getMembers st) (getStories st) record ! 2 = ''-''
     \<and> (let filtered = filterAttendance env fs (getAllAttendance st)
        in exportReports env st userId \<lparr>rq_format = Some ''excel'', rq_filters = fs\<rparr>
             = Sent ''application/vnd.openxmlformats-officedocument.spreadsheetml.sheet''
                 ''attendance-report.xlsx''
                 (Sheet ([''Date'', ''Member'', ''Story'', ''Role'', ''Status'', ''Replaced By'']
                          # map (excelRow env (getMembers st) (getStories st)) filtered))
           \<and> (\<exists>ops. exportReports env st userId \<lparr>rq_format = Some ''pdf'', rq_filters = fs\<rparr>
                        = Sent ''application/pdf'' ''attendance-report.pdf'' (Document ops)
                    \<and> textsOf ops
                        = map (pdfLine env (getMembers st) (getStories st)) (take 100 filtered))
           \<and> (\<exists>img. exportReports env st userId \<lparr>rq_format = Some ''image'', rq_filters = fs\<rparr>
                        = Sent ''image/jpeg'' ''attendance-report.jpg'' (AttendanceCanvas img)
                    \<and> map snd (tableRows img)
                        = map (imageCells env (getMembers st) (getStories st))
                            (take 49 filtered)))"
proof -
  have none: "storyOf (getStories st) record = None"
    using assms(1,3) by (rule storyOf_inactive)
  have row: "excelRow env (getMembers st) (getStories st) record ! 2 = []"
    by (simp add: excelRow_def none js_or_def)
  have line: "pdfLine env (getMembers st) (getStories st) record =
         toLocaleDateString env (a_date record) @ '' - ''
           @ js_or (map_option m_name (memberOf (getMembers st) record)) ''Unknown''
           @ '' - Unknown - '' @ toUpperCase env (a_status record)"
    by (simp add: pdfLine_def none js_or_def)
  have cells: "imageCells env (getMembers st) (getStories st) record ! 2 = ''-''"
    by (simp add: imageCells_def none js_or_def truncate_def)
  define filtered where "filtered = filterAttendance env fs (getAllAttendance st)"
  have xl: "exportReports env st userId \<lparr>rq_format = Some ''excel'', rq_filters = fs\<rparr>
             = Sent ''application/vnd.openxmlformats-officedocument.spreadsheetml.sheet''
                 ''attendance-report.xlsx''
                 (Sheet ([''Date'', ''Member'', ''Story'', ''Role'', ''Status'', ''Replaced By'']
                          # map (excelRow env (getMembers st) (getStories st)) filtered))"
    using assms(4) by (simp add: exportReports_cases ws_data_def filtered_def)
  have pdf: "\<exists>ops. exportReports env st userId \<lparr>rq_format = Some ''pdf'', rq_filters = fs\<rparr>
                        = Sent ''application/pdf'' ''attendance-report.pdf'' (Document ops)
                    \<and> textsOf ops
                        = map (pdfLine env (getMembers st) (getStories st)) (take 100 filtered)"
    using assms(4) by (simp add: exportReports_cases textsOf_pdfOps filtered_def)
  have img: "\<exists>img. exportReports env st userId \<lparr>rq_format = Some ''image'', rq_filters = fs\<rparr>
                        = Sent ''image/jpeg'' ''attendance-report.jpg'' (AttendanceCanvas img)
                    \<and> map snd (tableRows img)
                        = map (imageCells env (getMembers st) (getStories st))
                            (take 49 filtered)"
    using assms(4) by (simp add: exportReports_cases tableRows_attendanceCanvas filtered_def)
  show ?thesis
    using getStory_found [OF assms(2)] none row line cells xl pdf img
    unfolding Let_def filtered_def by blast
qed

theorem export_story_inactive_witness:
  "map s_id (tbl_stories store0) = [''s1'', ''s2'']
   \<and> map s_isActive (tbl_stories store0) = [Some True, Some False]
   \<and> a_storyId recordHoli = Some ''s2''
   \<and> isAdmin (getMemberByUserId store0 ''u-m1'')
   \<and> map_option s_name (getStory store0 ''s2'') = Some ''Holi Katha''
   \<and> excelRow env0 (getMembers store0) (getStories store0) recordHoli ! 2 = []
   \<and> pdfLine env0 (getMembers store0) (getStories store0) recordHoli
        = ''2024-01-09 - Bina - Unknown - REPLACED''
   \<and> imageCells env0 (getMembers store0) (getStories store0) recordHoli ! 2 = ''-''
   \<and> exportReports env0 store0 ''u-m1'' \<lparr>rq_format = Some ''excel'', rq_filters = None\<rparr>
        = Sent ''application/vnd.openxmlformats-officedocument.spreadsheetml.sheet''
            ''attendance-report.xlsx''
            (Sheet [[''Date'', ''Member'', ''Story'', ''Role'', ''Status'', ''Replaced By''],
                    [''2024-01-10'', ''Asha'', ''Ramayan'', [], ''present'', []],
                    [''2024-01-09'', ''Bina'', [], [], ''replaced'', []],
                    [''2024-01-08'', [], [], [], ''replaced'', []]])"
proof -
  have h1: "\<forall>s\<in>set (tbl_stories store0). s_id s = ''s2'' \<longrightarrow> s_isActive s \<noteq> Some True"
    by (simp add: store0_def)
  have h2: "\<exists>s\<in>set (tbl_stories store0). s_id s = ''s2''"
    by (simp add: store0_def)
  have h3: "a_storyId recordHoli = Some ''s2''"
    by (simp add: recordHoli_def)
  have t: "map s_id (tbl_stories store0) = [''s1'', ''s2'']"
    "map s_isActive (tbl_stories store0) = [Some True, Some False]"
    by (simp_all add: store0_def)
  have g: "map_option s_name (getStory store0 ''s2'') = Some ''Holi Katha''"
    by (simp add: getStory_def store0_def)
  have l: "pdfLine env0 (getMembers store0) (getStories store0) recordHoli
        = ''2024-01-09 - Bina - Unknown - REPLACED''"
    by code_simp
  have f: "filterAttendance env0 None (getAllAttendance store0)
        = [recordJJ, recordHoli, recordDangling]"
    by code_simp
  have r: "map (excelRow env0 (getMembers store0) (getStories store0))
             [recordJJ, recordHoli, recordDangling]
        = [[''2024-01-10'', ''Asha'', ''Ramayan'', [], ''present'', []],
           [''2024-01-09'', ''Bina'', [], [], ''replaced'', []],
           [''2024-01-08'', [], [], [], ''replaced'', []]]"
    by code_simp
  show ?thesis
    using export_story_inactive [OF h1 h2 h3 admin_store0, of env0 None] t h3 admin_store0 g l f r
    unfolding Let_def by simp
qed

end
